theory Spec2Isabelle
  imports Complex_Main "HOL-Library.AList" "HOL-Library.Char_ord" "HOL-Library.List_Lexorder"
begin

section \<open>JavaScript values\<close>

text \<open>
  The list-parameter code of \<open>useListParams\<close> works on untyped JavaScript values: a query
  read from the URL holds strings, the stored params hold numbers and \<open>null\<close>, a filter is
  any JSON value. Objects are association lists in insertion order (the first entry of a
  key is the one a read sees). A number is a double: a finite one is the rational it
  stands for, and the others are NaN and the two infinities. The two zeros are one, as
  no test of this code tells them apart.
\<close>

datatype jsval =
    JUndefined
  | JNull
  | JBool bool
  | JNum rat
  | JNaN
  | JInfinity
  | JNegInfinity
  | JStr string
  | JArr "jsval list"
  | JObj "(string \<times> jsval) list"

type_synonym obj = "(string \<times> jsval) list"

datatype error = TypeError | SyntaxError

text \<open>\<open>!!v\<close>: the falsy values are undefined, null, false, 0, NaN and the empty string.\<close>

fun truthy :: "jsval \<Rightarrow> bool" where
  "truthy JUndefined = False"
| "truthy JNull = False"
| "truthy (JBool b) = b"
| "truthy (JNum n) = (n \<noteq> 0)"
| "truthy JNaN = False"
| "truthy JInfinity = True"
| "truthy JNegInfinity = True"
| "truthy (JStr s) = (s \<noteq> [])"
| "truthy (JArr xs) = True"
| "truthy (JObj kvs) = True"

text \<open>\<open>a || b\<close> on values.\<close>

definition js_or :: "jsval \<Rightarrow> jsval \<Rightarrow> jsval" where
  "js_or a b = (if truthy a then a else b)"

text \<open>\<open>v != null\<close> is false exactly for null and undefined.\<close>

definition not_nullish :: "jsval \<Rightarrow> bool" where
  "not_nullish v = (v \<noteq> JNull \<and> v \<noteq> JUndefined)"

text \<open>\<open>o.k\<close>, \<open>o.k = v\<close> and \<open>delete o.k\<close> on a plain object.\<close>

definition get_prop :: "obj \<Rightarrow> string \<Rightarrow> jsval" where
  "get_prop ob k = (case map_of ob k of None \<Rightarrow> JUndefined | Some v \<Rightarrow> v)"

definition set_prop :: "obj \<Rightarrow> string \<Rightarrow> jsval \<Rightarrow> obj" where
  "set_prop ob k v = AList.update k v ob"

definition delete_prop :: "obj \<Rightarrow> string \<Rightarrow> obj" where
  "delete_prop ob k = AList.delete k ob"

text \<open>Decimal notation of an array index, as a property name.\<close>

fun show_nat :: "nat \<Rightarrow> string" where
  "show_nat n =
     (if n < 10 then [char_of (48 + n)]
      else show_nat (n div 10) @ [char_of (48 + n mod 10)])"

declare show_nat.simps [simp del]

text \<open>
  The own enumerable properties of a value, as \<open>Object.keys\<close> and the spread \<open>{...v}\<close> see
  them: the entries of an object, the indices of an array or of a string, nothing for the
  other primitives.
\<close>

fun entries :: "jsval \<Rightarrow> obj" where
  "entries (JObj kvs) = kvs"
| "entries (JArr xs) = zip (map show_nat [0..<length xs]) xs"
| "entries (JStr s) = zip (map show_nat [0..<length s]) (map (\<lambda>c. JStr [c]) s)"
| "entries v = []"

text \<open>
  \<open>v.k\<close> on any value, for a name \<open>k\<close> that no prototype defines (the code reads
  \<open>sort.field\<close> and \<open>sort.order\<close>): a TypeError on undefined and null, the own property
  otherwise.
\<close>

definition get_member :: "jsval \<Rightarrow> string \<Rightarrow> error + jsval" where
  "get_member v k =
     (if v = JUndefined \<or> v = JNull then Inl TypeError else Inr (get_prop (entries v) k))"

text \<open>\<open>Object.keys(v)\<close> throws a TypeError on undefined and null.\<close>

fun Object_keys :: "jsval \<Rightarrow> error + string list" where
  "Object_keys JUndefined = Inl TypeError"
| "Object_keys JNull = Inl TypeError"
| "Object_keys v = Inr (remdups (map fst (entries v)))"

subsection \<open>parseInt(s, 10)\<close>

definition is_space :: "char \<Rightarrow> bool" where
  "is_space c = (of_char c \<in> {9, 10, 11, 12, 13, 32, 160 :: nat})"

definition is_digit :: "char \<Rightarrow> bool" where
  "is_digit c = (48 \<le> (of_char c :: nat) \<and> (of_char c :: nat) \<le> 57)"

definition digits_value :: "string \<Rightarrow> int" where
  "digits_value ds = foldl (\<lambda>a c. 10 * a + (int (of_char c) - 48)) 0 ds"

text \<open>
  The double nearest to an integer that is not negative. A number of more than 53 bits
  is rounded to 53 bits, a tie to the even neighbour; from \<open>2 ^ 1024\<close> on the result is
  Infinity.
\<close>

function bit_length :: "int \<Rightarrow> nat" where
  "bit_length n = (if n \<le> 0 then 0 else Suc (bit_length (n div 2)))"
  by pat_completeness auto

termination
  by (relation "measure nat") auto

declare bit_length.simps [simp del]

definition round53 :: "int \<Rightarrow> int" where
  "round53 n =
     (if bit_length n \<le> 53 then n
      else (let sh = bit_length n - 53;
                q = n div 2 ^ sh;
                r = n mod 2 ^ sh;
                half = 2 ^ (sh - 1)
            in (if half < r \<or> (r = half \<and> odd q) then q + 1 else q) * 2 ^ sh))"

definition number_of_int :: "bool \<Rightarrow> int \<Rightarrow> jsval" where
  "number_of_int neg n =
     (if 2 ^ 1024 \<le> round53 n then (if neg then JNegInfinity else JInfinity)
      else JNum (of_int (if neg then - round53 n else round53 n)))"

text \<open>
  Leading white space is skipped, one sign is read, then the longest run of decimal
  digits; with no digit the result is NaN. The value is the double nearest to the
  integer that the digits write (an implementation may read the digits after the
  twentieth as zeros; this one does not).
\<close>

definition parseInt :: "string \<Rightarrow> jsval" where
  "parseInt s =
     (let s1 = dropWhile is_space s;
          neg = (s1 \<noteq> [] \<and> hd s1 = CHR ''-'');
          s2 = (if s1 \<noteq> [] \<and> (hd s1 = CHR ''-'' \<or> hd s1 = CHR ''+'') then tl s1 else s1);
          ds = takeWhile is_digit s2
      in if ds = [] then JNaN else number_of_int neg (digits_value ds))"

section \<open>Library functions\<close>

text \<open>
  \<open>useListParams\<close> imports \<open>parse\<close> and \<open>stringify\<close> from query-string, \<open>isEqual\<close> and
  \<open>pickBy\<close> from lodash, uses the built-in \<open>JSON\<close> object, and imports \<open>queryReducer\<close>
  from the resource reducers. The functions whose result the hook only passes on are
  parameters of the model, so every theorem holds for each of their implementations.
  \<open>JSON_parse\<close> returns \<open>Inl SyntaxError\<close> where \<open>JSON.parse\<close> throws.
\<close>

text \<open>The actions that \<open>changeParams\<close> hands to \<open>queryReducer\<close>: a type and a payload.\<close>

datatype action =
    SET_FILTER jsval
  | SET_PAGE jsval
  | SET_PER_PAGE jsval
  | SET_SORT jsval

record lib =
  parse :: "string \<Rightarrow> obj"
  stringify :: "obj \<Rightarrow> string"
  JSON_parse :: "string \<Rightarrow> error + jsval"
  JSON_stringify :: "jsval \<Rightarrow> jsval"
  isEqual :: "jsval \<Rightarrow> jsval \<Rightarrow> bool"
  queryReducer :: "obj \<Rightarrow> action \<Rightarrow> obj"

text \<open>lodash \<open>pickBy(object, predicate)\<close>: the entries whose \<open>predicate(value, key)\<close> holds.\<close>

definition pickBy :: "obj \<Rightarrow> (jsval \<Rightarrow> string \<Rightarrow> bool) \<Rightarrow> obj" where
  "pickBy ob p = filter (\<lambda>(k, v). p v k) ob"

section \<open>Reading the query: parseQueryFromLocation, hasCustomParams, getQuery\<close>

text \<open>
  The \<open>Location\<close> of the history package, of which the hook reads \<open>search\<close>, and the
  \<open>Sort\<close> of the caller's default.
\<close>

record location =
  search :: string

record Sort =
  field :: string
  order :: string

definition validQueryParams :: "string list" where
  "validQueryParams = [''page'', ''perPage'', ''sort'', ''order'', ''filter'']"

text \<open>
  The filter is parsed when \<open>query.filter && typeof query.filter === 'string'\<close>, that
  is when it is a non-empty string; the \<open>catch\<close> branch deletes the key.
\<close>

definition parseQueryFromLocation :: "lib \<Rightarrow> location \<Rightarrow> obj" where
  "parseQueryFromLocation L loc =
     (let query = pickBy (parse L (search loc)) (\<lambda>v k. k \<in> set validQueryParams)
      in case get_prop query ''filter'' of
           JStr s \<Rightarrow>
             (if truthy (JStr s) then
                (case JSON_parse L s of
                   Inr v \<Rightarrow> set_prop query ''filter'' v
                 | Inl err \<Rightarrow> delete_prop query ''filter'')
              else query)
         | _ \<Rightarrow> query)"

definition hasCustomParams :: "obj option \<Rightarrow> error + jsval" where
  "hasCustomParams params =
     (case params of
        None \<Rightarrow> Inr JUndefined
      | Some p \<Rightarrow>
          (let f = get_prop p ''filter'' in
           if \<not> truthy f then Inr f
           else
             (case Object_keys f of
                Inl e \<Rightarrow> Inl e
              | Inr ks \<Rightarrow>
                  Inr (JBool (length ks > 0 \<or>
                              not_nullish (get_prop p ''order'') \<or>
                              get_prop p ''page'' \<noteq> JNum 1 \<or>
                              not_nullish (get_prop p ''perPage'') \<or>
                              not_nullish (get_prop p ''sort''))))))"

definition getNumberOrDefault :: "jsval \<Rightarrow> jsval \<Rightarrow> jsval" where
  "getNumberOrDefault possibleNumber defaultValue =
     js_or (case possibleNumber of JStr s \<Rightarrow> parseInt s | _ \<Rightarrow> possibleNumber) defaultValue"

text \<open>
  The argument of \<open>getQuery\<close>. The stored \<open>params\<close> are a \<open>ListParams\<close> object or
  undefined; \<open>sort\<close>, \<open>filterDefaultValues\<close> and \<open>perPage\<close> are any value: \<open>getQuery\<close>
  gives them no default.
\<close>

record query_args =
  location :: location
  params :: "obj option"
  filterDefaultValues :: jsval
  sort' :: jsval
  perPage :: jsval

text \<open>
  The three-way choice of \<open>getQuery\<close> (its \<open>const query = ...\<close>): the query of the
  location, else the stored params, else the default filter.
\<close>

definition selectQuery :: "lib \<Rightarrow> query_args \<Rightarrow> error + obj" where
  "selectQuery L a =
     (let queryFromLocation = parseQueryFromLocation L (location a) in
      case Object_keys (JObj queryFromLocation) of
        Inl e \<Rightarrow> Inl e
      | Inr ks \<Rightarrow>
          if length ks > 0 then Inr queryFromLocation
          else
            (case hasCustomParams (params a) of
               Inl e \<Rightarrow> Inl e
             | Inr c \<Rightarrow>
                 if truthy c then Inr (entries (case params a of None \<Rightarrow> JUndefined | Some p \<Rightarrow> JObj p))
                 else Inr [(''filter'', js_or (filterDefaultValues a) (JObj []))]))"

text \<open>
  The rest of \<open>getQuery\<close>, in its two parts. The part that fills in \<open>perPage\<close> and
  \<open>page\<close> and resolves them to numbers throws nothing.
\<close>

definition fillNumbers :: "jsval \<Rightarrow> obj \<Rightarrow> obj" where
  "fillNumbers pp query1 =
     (let query2 = (if \<not> truthy (get_prop query1 ''perPage'')
                    then set_prop query1 ''perPage'' pp else query1);
          query3 = (if \<not> truthy (get_prop query2 ''page'')
                    then set_prop query2 ''page'' (JNum 1) else query2)
      in set_prop
           (set_prop query3 ''page'' (getNumberOrDefault (get_prop query3 ''page'') (JNum 1)))
           ''perPage'' (getNumberOrDefault (get_prop query3 ''perPage'') (JNum 10)))"

text \<open>
  The part before it reads \<open>sort.field\<close> and \<open>sort.order\<close> when the query has no sort,
  and only then.
\<close>

definition fillQuery :: "jsval \<Rightarrow> jsval \<Rightarrow> obj \<Rightarrow> error + obj" where
  "fillQuery s pp query0 =
     (if \<not> truthy (get_prop query0 ''sort'')
      then (case get_member s ''field'' of
              Inl e \<Rightarrow> Inl e
            | Inr f \<Rightarrow>
                (case get_member s ''order'' of
                   Inl e \<Rightarrow> Inl e
                 | Inr ord \<Rightarrow>
                     Inr (fillNumbers pp (set_prop (set_prop query0 ''sort'' f) ''order'' ord))))
      else Inr (fillNumbers pp query0))"

definition getQuery :: "lib \<Rightarrow> query_args \<Rightarrow> error + obj" where
  "getQuery L a =
     (case selectQuery L a of
        Inl e \<Rightarrow> Inl e
      | Inr query \<Rightarrow> fillQuery (sort' a) (perPage a) query)"

section \<open>The hook: modifiers and the debounced filter commit\<close>

text \<open>
  Modelled from the spec: \<open>SORT_ASC\<close> is exported by the queryReducer module, which is
  not among the source files; the spec's examples write the ascending order \<open>'ASC'\<close>.
\<close>

definition SORT_ASC :: string where
  "SORT_ASC = ''ASC''"

definition emptyObject :: jsval where
  "emptyObject = JObj []"

definition defaultSort :: Sort where
  "defaultSort = \<lparr>field = ''id'', order = SORT_ASC\<rparr>"

text \<open>A \<open>Sort\<close> as the object it is.\<close>

definition Sort_value :: "Sort \<Rightarrow> jsval" where
  "Sort_value s = JObj [(''field'', JStr (field s)), (''order'', JStr (order s))]"

text \<open>
  \<open>ListParamsOptions\<close>: the optional \<open>sort\<close>, \<open>perPage\<close> and \<open>debounce\<close> take their
  default when they are not given.
\<close>

record ListParamsOptions =
  opt_resource :: string
  opt_location :: location
  opt_filterDefaultValues :: jsval
  opt_sort :: "Sort option"
  opt_perPage :: "jsval option"
  opt_debounce :: "nat option"

text \<open>
  What one render of \<open>useListParams\<close> computes and its callbacks close over: the
  resource, the merged query and the debounce delay.
\<close>

record hook =
  resource :: string
  query :: obj
  debounce :: nat

definition useListParams :: "lib \<Rightarrow> ListParamsOptions \<Rightarrow> obj option \<Rightarrow> error + hook" where
  "useListParams L opts storeParams =
     (case getQuery L
             \<lparr>location = opt_location opts,
              params = storeParams,
              filterDefaultValues = opt_filterDefaultValues opts,
              sort' = Sort_value (case opt_sort opts of None \<Rightarrow> defaultSort | Some s \<Rightarrow> s),
              perPage = (case opt_perPage opts of None \<Rightarrow> JNum 10 | Some n \<Rightarrow> n)\<rparr> of
        Inl e \<Rightarrow> Inl e
      | Inr q \<Rightarrow>
          Inr \<lparr>resource = opt_resource opts,
               query = q,
               debounce = (case opt_debounce opts of None \<Rightarrow> 500 | Some d \<Rightarrow> d)\<rparr>)"

definition filterValues :: "hook \<Rightarrow> jsval" where
  "filterValues h = js_or (get_prop (query h) ''filter'') emptyObject"

text \<open>
  The hook writes through \<open>dispatch\<close> only: a \<open>push\<close> of a new search string and a
  \<open>changeListParams\<close> for the resource. Its own state is the map of displayed filters
  and the timer of the debounced \<open>setFilters\<close>: the argument of the last call and the
  time left before it runs.
\<close>

datatype effect =
    Push string
  | ChangeListParams string obj

record hook_state =
  displayedFilters :: "(string \<times> bool) list"
  pending :: "(jsval \<times> nat) option"
  dispatched :: "effect list"

text \<open>The two \<open>dispatch\<close> calls of \<open>changeParams\<close>, in their order.\<close>

definition changeEffects :: "lib \<Rightarrow> hook \<Rightarrow> action \<Rightarrow> effect list" where
  "changeEffects L h act =
     (let newParams = queryReducer L (query h) act in
      [Push (''?'' @ stringify L
               (set_prop newParams ''filter''
                  (JSON_stringify L (get_prop newParams ''filter'')))),
       ChangeListParams (resource h) newParams])"

definition changeParams :: "lib \<Rightarrow> hook \<Rightarrow> action \<Rightarrow> hook_state \<Rightarrow> hook_state" where
  "changeParams L h act st = st\<lparr>dispatched := dispatched st @ changeEffects L h act\<rparr>"

definition setSort :: "lib \<Rightarrow> hook \<Rightarrow> jsval \<Rightarrow> hook_state \<Rightarrow> hook_state" where
  "setSort L h newSort = changeParams L h (SET_SORT (JObj [(''sort'', newSort)]))"

definition setPage :: "lib \<Rightarrow> hook \<Rightarrow> jsval \<Rightarrow> hook_state \<Rightarrow> hook_state" where
  "setPage L h newPage = changeParams L h (SET_PAGE newPage)"

definition setPerPage :: "lib \<Rightarrow> hook \<Rightarrow> jsval \<Rightarrow> hook_state \<Rightarrow> hook_state" where
  "setPerPage L h newPerPage = changeParams L h (SET_PER_PAGE newPerPage)"

text \<open>
  Modelled from the spec: \<open>util/removeEmpty\<close> is not among the source files. The spec:
  "Empty filter values (empty string, empty array, null, undefined, empty object) are
  stripped before committing a filter mutation".
\<close>

definition is_empty_value :: "jsval \<Rightarrow> bool" where
  "is_empty_value v =
     (v = JStr [] \<or> v = JArr [] \<or> v = JNull \<or> v = JUndefined \<or> v = JObj [])"

text \<open>
  Modelled from the spec: \<open>removeEmpty\<close> of \<open>util/removeEmpty\<close>, which is not among the
  source files, returns its argument without the entries whose value is empty.
\<close>

definition removeEmpty :: "jsval \<Rightarrow> jsval" where
  "removeEmpty filters = JObj (filter (\<lambda>(k, v). \<not> is_empty_value v) (entries filters))"

text \<open>
  Modelled from the spec: \<open>util/removeKey\<close> is not among the source files. The spec:
  \<open>hideFilter\<close> "removes key \<open>name\<close> from current filter values".
\<close>

definition removeKey :: "jsval \<Rightarrow> string \<Rightarrow> jsval" where
  "removeKey target k = JObj (delete_prop (entries target) k)"

text \<open>The function that \<open>setFilters\<close> debounces.\<close>

definition commitFilters :: "lib \<Rightarrow> hook \<Rightarrow> jsval \<Rightarrow> hook_state \<Rightarrow> hook_state" where
  "commitFilters L h filters st =
     (if isEqual L filters (filterValues h) then st
      else changeParams L h (SET_FILTER (removeEmpty filters)) st)"

text \<open>
  \<open>lodashDebounce(f, debounce)\<close> with its default options runs \<open>f\<close> on the trailing
  edge: a call stores its argument and restarts the wait, and \<open>f\<close> runs with the last
  argument once \<open>debounce\<close> time units have passed without a call. \<open>elapse\<close> lets time
  pass.
\<close>

definition setFilters :: "hook \<Rightarrow> jsval \<Rightarrow> hook_state \<Rightarrow> hook_state" where
  "setFilters h filters st = st\<lparr>pending := Some (filters, debounce h)\<rparr>"

definition elapse :: "lib \<Rightarrow> hook \<Rightarrow> nat \<Rightarrow> hook_state \<Rightarrow> hook_state" where
  "elapse L h t st =
     (case pending st of
        None \<Rightarrow> st
      | Some (filters, left) \<Rightarrow>
          if t < left then st\<lparr>pending := Some (filters, left - t)\<rparr>
          else commitFilters L h filters (st\<lparr>pending := None\<rparr>))"

definition hideFilter :: "hook \<Rightarrow> string \<Rightarrow> hook_state \<Rightarrow> hook_state" where
  "hideFilter h filterName st =
     (let st1 = st\<lparr>displayedFilters := [(filterName, False)]\<rparr>;
          newFilters = removeKey (filterValues h) filterName
      in setFilters h newFilters st1)"

definition showFilter :: "hook \<Rightarrow> string \<Rightarrow> jsval \<Rightarrow> hook_state \<Rightarrow> hook_state" where
  "showFilter h filterName defaultValue st =
     (let st1 = st\<lparr>displayedFilters := [(filterName, True)]\<rparr>
      in if defaultValue \<noteq> JUndefined
         then setFilters h (JObj (set_prop (entries (filterValues h)) filterName defaultValue)) st1
         else st1)"

text \<open>
  A run of \<open>setFilters\<close> calls: each pair is the time that passes before a call and the
  argument of the call.
\<close>

fun setFiltersCalls :: "lib \<Rightarrow> hook \<Rightarrow> (nat \<times> jsval) list \<Rightarrow> hook_state \<Rightarrow> hook_state" where
  "setFiltersCalls L h [] st = st"
| "setFiltersCalls L h ((gap, filters) # rest) st =
     setFiltersCalls L h rest (setFilters h filters (elapse L h gap st))"

definition initial_state :: hook_state where
  "initial_state = \<lparr>displayedFilters = [], pending = None, dispatched = []\<rparr>"

subsection \<open>The location and the store\<close>






section \<open>An instance of the library\<close>

text \<open>
  The worked examples below run the hook on one executable instance of the library
  parameters. The instance covers what the examples need: query strings of \<open>key=value\<close>
  pairs in ASCII, and JSON texts without string escapes and exponents. Every general
  theorem is stated for an arbitrary library.
\<close>

fun split_on :: "char \<Rightarrow> string \<Rightarrow> string list" where
  "split_on c [] = [[]]"
| "split_on c (x # xs) =
     (if x = c then [] # split_on c xs
      else (case split_on c xs of w # ws \<Rightarrow> (x # w) # ws | [] \<Rightarrow> [[x]]))"

definition hex_value :: "char \<Rightarrow> nat option" where
  "hex_value c =
     (let n = (of_char c :: nat) in
      if 48 \<le> n \<and> n \<le> 57 then Some (n - 48)
      else if 65 \<le> n \<and> n \<le> 70 then Some (n - 55)
      else if 97 \<le> n \<and> n \<le> 102 then Some (n - 87)
      else None)"

fun percent_decode :: "string \<Rightarrow> string" where
  "percent_decode (c # a # b # r) =
     (if c = CHR ''%'' then
        (case (hex_value a, hex_value b) of
           (Some x, Some y) \<Rightarrow> char_of (16 * x + y) # percent_decode r
         | _ \<Rightarrow> c # percent_decode (a # b # r))
      else c # percent_decode (a # b # r))"
| "percent_decode s = s"

text \<open>
  query-string \<open>parse\<close>: one leading \<open>?\<close>, \<open>#\<close> or \<open>&\<close> is dropped, a \<open>+\<close> reads as a
  space, keys and values are percent-decoded, a key with no \<open>=\<close> is null, the values of
  a repeated key are collected in an array, and the keys come out sorted.
\<close>

definition add_param :: "obj \<Rightarrow> string \<times> jsval \<Rightarrow> obj" where
  "add_param ob kv =
     (case map_of ob (fst kv) of
        None \<Rightarrow> ob @ [kv]
      | Some (JArr xs) \<Rightarrow> AList.update (fst kv) (JArr (xs @ [snd kv])) ob
      | Some old \<Rightarrow> AList.update (fst kv) (JArr [old, snd kv]) ob)"

definition sample_parse :: "string \<Rightarrow> obj" where
  "sample_parse input =
     (let s = (if input \<noteq> [] \<and> hd input \<in> set ''?#&'' then tl input else input)
      in if s = [] then []
         else sort_key fst
                (foldl add_param []
                   (map (\<lambda>param.
                           (percent_decode (takeWhile (\<lambda>c. c \<noteq> CHR ''='') param),
                            case dropWhile (\<lambda>c. c \<noteq> CHR ''='') param of
                              [] \<Rightarrow> JNull
                            | eq # v \<Rightarrow> JStr (percent_decode v)))
                        (split_on CHR ''&''
                           (map (\<lambda>c. if c = CHR ''+'' then CHR '' '' else c) s)))))"

definition show_int :: "int \<Rightarrow> string" where
  "show_int i = (if i < 0 then CHR ''-'' # show_nat (nat (- i)) else show_nat (nat i))"

text \<open>The digits of \<open>r / d\<close> after the point, at most \<open>k\<close> of them.\<close>

fun fraction_digits :: "nat \<Rightarrow> nat \<Rightarrow> nat \<Rightarrow> string" where
  "fraction_digits 0 r d = []"
| "fraction_digits (Suc k) r d =
     (if r = 0 then []
      else char_of (48 + 10 * r div d) # fraction_digits k (10 * r mod d) d)"

text \<open>A finite number in decimal notation; a fraction is written with at most 20 digits.\<close>

definition show_rat :: "rat \<Rightarrow> string" where
  "show_rat x =
     (let n = fst (quotient_of x); d = nat (snd (quotient_of x)); m = nat \<bar>n\<bar>
      in if d = 1 then show_int n
         else (if n < 0 then ''-'' else []) @ show_nat (m div d) @ ''.''
                @ fraction_digits 20 (m mod d) d)"

fun join :: "string \<Rightarrow> string list \<Rightarrow> string" where
  "join sep [] = []"
| "join sep [x] = x"
| "join sep (x # y # ys) = x @ sep @ join sep (y # ys)"

text \<open>
  \<open>JSON.stringify\<close>: an undefined member is left out, undefined and NaN print as
  \<open>null\<close> elsewhere; at top level undefined stays undefined.
\<close>

fun json_text :: "jsval \<Rightarrow> string" where
  "json_text JUndefined = ''null''"
| "json_text JNull = ''null''"
| "json_text (JBool b) = (if b then ''true'' else ''false'')"
| "json_text (JNum n) = show_rat n"
| "json_text JNaN = ''null''"
| "json_text JInfinity = ''null''"
| "json_text JNegInfinity = ''null''"
| "json_text (JStr s) = CHR 0x22 # s @ [CHR 0x22]"
| "json_text (JArr xs) = ''['' @ join '','' (map json_text xs) @ '']''"
| "json_text (JObj kvs) =
     ''{'' @ join '',''
        (map (\<lambda>(k, v). CHR 0x22 # k @ [CHR 0x22] @ '':'' @ json_text v)
          (filter (\<lambda>(k, v). v \<noteq> JUndefined) kvs)) @ ''}''"

definition sample_JSON_stringify :: "jsval \<Rightarrow> jsval" where
  "sample_JSON_stringify v = (if v = JUndefined then JUndefined else JStr (json_text v))"

definition json_ws :: "string \<Rightarrow> string" where
  "json_ws s = dropWhile (\<lambda>c. c \<in> set [CHR 0x20, CHR 0x09, CHR 0x0A, CHR 0x0D]) s"

definition starts_with :: "string \<Rightarrow> string \<Rightarrow> bool" where
  "starts_with p s = (take (length p) s = p)"

text \<open>A string literal without escapes: the text up to the closing quote.\<close>

definition json_string :: "string \<Rightarrow> (string \<times> string) option" where
  "json_string s =
     (let body = takeWhile (\<lambda>c. c \<noteq> CHR 0x22) s;
          rest = dropWhile (\<lambda>c. c \<noteq> CHR 0x22) s
      in if rest = [] \<or> (\<exists>c \<in> set body. c = CHR 0x5C \<or> (of_char c :: nat) < 32) then None
         else Some (body, tl rest))"

text \<open>
  A number literal without exponent: an optional minus sign, then 0 or digits that do
  not start with 0, then an optional point with digits.
\<close>

definition json_number :: "string \<Rightarrow> (jsval \<times> string) option" where
  "json_number s =
     (let neg = starts_with ''-'' s;
          s1 = (if neg then tl s else s);
          ds = takeWhile is_digit s1;
          rest = dropWhile is_digit s1;
          fs = (if starts_with ''.'' rest then takeWhile is_digit (tl rest) else []);
          rest' = (if starts_with ''.'' rest then dropWhile is_digit (tl rest) else rest);
          x = of_int (digits_value ds) + of_int (digits_value fs) / 10 ^ length fs
      in if ds = [] \<or> (length ds > 1 \<and> hd ds = CHR ''0'')
            \<or> (starts_with ''.'' rest \<and> fs = [])
            \<or> (rest' \<noteq> [] \<and> hd rest' \<in> set ''eE'') then None
         else Some (JNum (if neg then - x else x), rest'))"

text \<open>
  The reader takes fuel, one unit for each value, element and member; the length of the
  text is enough. A repeated key keeps its first place and its last value.
\<close>

fun json_value :: "nat \<Rightarrow> string \<Rightarrow> (jsval \<times> string) option"
  and json_elements :: "nat \<Rightarrow> string \<Rightarrow> (jsval list \<times> string) option"
  and json_members :: "nat \<Rightarrow> string \<Rightarrow> (obj \<times> string) option" where
  "json_value 0 s = None"
| "json_value (Suc n) s =
     (let s = json_ws s in
      if starts_with ''null'' s then Some (JNull, drop 4 s)
      else if starts_with ''true'' s then Some (JBool True, drop 4 s)
      else if starts_with ''false'' s then Some (JBool False, drop 5 s)
      else if starts_with [CHR 0x22] s then
        (case json_string (tl s) of None \<Rightarrow> None | Some (str, r) \<Rightarrow> Some (JStr str, r))
      else if starts_with ''['' s then
        (if starts_with '']'' (json_ws (tl s)) then Some (JArr [], tl (json_ws (tl s)))
         else (case json_elements n (tl s) of None \<Rightarrow> None | Some (xs, r) \<Rightarrow> Some (JArr xs, r)))
      else if starts_with ''{'' s then
        (if starts_with ''}'' (json_ws (tl s)) then Some (JObj [], tl (json_ws (tl s)))
         else (case json_members n (tl s) of None \<Rightarrow> None | Some (kvs, r) \<Rightarrow> Some (JObj kvs, r)))
      else json_number s)"
| "json_elements 0 s = None"
| "json_elements (Suc n) s =
     (case json_value n s of
        None \<Rightarrow> None
      | Some (v, r) \<Rightarrow>
          (let r = json_ws r in
           if starts_with '']'' r then Some ([v], tl r)
           else if starts_with '','' r then
             (case json_elements n (tl r) of None \<Rightarrow> None | Some (vs, r') \<Rightarrow> Some (v # vs, r'))
           else None))"
| "json_members 0 s = None"
| "json_members (Suc n) s =
     (let s = json_ws s in
      if \<not> starts_with [CHR 0x22] s then None
      else
        (case json_string (tl s) of
           None \<Rightarrow> None
         | Some (k, r) \<Rightarrow>
             (let r = json_ws r in
              if \<not> starts_with '':'' r then None
              else
                (case json_value n (tl r) of
                   None \<Rightarrow> None
                 | Some (v, r1) \<Rightarrow>
                     (let r1 = json_ws r1 in
                      if starts_with ''}'' r1 then Some ([(k, v)], tl r1)
                      else if starts_with '','' r1 then
                        (case json_members n (tl r1) of
                           None \<Rightarrow> None
                         | Some (kvs, r2) \<Rightarrow>
                             Some ((k, case map_of kvs k of None \<Rightarrow> v | Some v' \<Rightarrow> v')
                                     # AList.delete k kvs, r2))
                      else None)))))"

definition sample_JSON_parse :: "string \<Rightarrow> error + jsval" where
  "sample_JSON_parse s =
     (case json_value (Suc (length s)) s of
        None \<Rightarrow> Inl SyntaxError
      | Some (v, r) \<Rightarrow> if json_ws r = [] then Inr v else Inl SyntaxError)"

definition unreserved :: "char \<Rightarrow> bool" where
  "unreserved c =
     (let n = (of_char c :: nat) in
      (48 \<le> n \<and> n \<le> 57) \<or> (65 \<le> n \<and> n \<le> 90) \<or> (97 \<le> n \<and> n \<le> 122) \<or> c \<in> set ''-_.~'')"

definition percent_encode :: "string \<Rightarrow> string" where
  "percent_encode s =
     concat (map (\<lambda>c. if unreserved c then [c]
                      else [CHR ''%'', ''0123456789ABCDEF'' ! (of_char c div 16),
                            ''0123456789ABCDEF'' ! (of_char c mod 16)]) s)"

text \<open>\<open>String(v)\<close>.\<close>

fun to_string :: "jsval \<Rightarrow> string" where
  "to_string JUndefined = ''undefined''"
| "to_string JNull = ''null''"
| "to_string (JBool b) = (if b then ''true'' else ''false'')"
| "to_string (JNum n) = show_rat n"
| "to_string JNaN = ''NaN''"
| "to_string JInfinity = ''Infinity''"
| "to_string JNegInfinity = ''-Infinity''"
| "to_string (JStr s) = s"
| "to_string (JArr xs) =
     join '','' (map (\<lambda>x. if x = JUndefined \<or> x = JNull then [] else to_string x) xs)"
| "to_string (JObj kvs) = ''[object Object]''"

text \<open>
  query-string \<open>stringify\<close>: the keys in sorted order, an undefined value left out, a null
  value as the bare key, an array as one pair for each element, the other values
  percent-encoded.
\<close>

definition stringify_pair :: "string \<Rightarrow> jsval \<Rightarrow> string" where
  "stringify_pair k v =
     (case v of
        JUndefined \<Rightarrow> []
      | JNull \<Rightarrow> percent_encode k
      | _ \<Rightarrow> percent_encode k @ ''='' @ percent_encode (to_string v))"

definition sample_stringify :: "obj \<Rightarrow> string" where
  "sample_stringify ob =
     join ''&''
       (filter (\<lambda>x. x \<noteq> [])
         (map (\<lambda>k. case get_prop ob k of
                     JArr xs \<Rightarrow> join ''&'' (filter (\<lambda>x. x \<noteq> []) (map (stringify_pair k) xs))
                   | v \<Rightarrow> stringify_pair k v)
              (sort (remdups (map fst ob)))))"

text \<open>lodash \<open>isEqual\<close>: two objects are equal when they hold equal values under the same keys.\<close>

fun canonical :: "jsval \<Rightarrow> jsval" where
  "canonical (JArr xs) = JArr (map canonical xs)"
| "canonical (JObj kvs) = JObj (sort_key fst (map (\<lambda>(k, v). (k, canonical v)) kvs))"
| "canonical v = v"

definition sample_isEqual :: "jsval \<Rightarrow> jsval \<Rightarrow> bool" where
  "sample_isEqual a b = (canonical a = canonical b)"

text \<open>
  Modelled from the spec: \<open>queryReducer\<close> is not among the source files. The spec:
  \<open>setSort\<close> "replaces \<open>sort\<close>/\<open>order\<close>", \<open>setPage\<close> "replaces \<open>page\<close>", \<open>setPerPage\<close>
  "replaces \<open>perPage\<close>", and a filter commit applies \<open>SET_FILTER\<close> to the merged query.
\<close>

fun sample_queryReducer :: "obj \<Rightarrow> action \<Rightarrow> obj" where
  "sample_queryReducer q (SET_SORT payload) =
     (let newSort = entries (get_prop (entries payload) ''sort'')
      in set_prop (set_prop q ''sort'' (get_prop newSort ''field''))
           ''order'' (get_prop newSort ''order''))"
| "sample_queryReducer q (SET_PAGE payload) = set_prop q ''page'' payload"
| "sample_queryReducer q (SET_PER_PAGE payload) = set_prop q ''perPage'' payload"
| "sample_queryReducer q (SET_FILTER payload) = set_prop q ''filter'' payload"

definition sample_lib :: lib where
  "sample_lib =
     \<lparr>parse = sample_parse,
      stringify = sample_stringify,
      JSON_parse = sample_JSON_parse,
      JSON_stringify = sample_JSON_stringify,
      isEqual = sample_isEqual,
      queryReducer = sample_queryReducer\<rparr>"

section \<open>Predicates of the statements\<close>

text \<open>A number that is at least 1.\<close>

definition at_least_one :: "jsval \<Rightarrow> bool" where
  "at_least_one v = (case v of JNum n \<Rightarrow> 1 \<le> n | JInfinity \<Rightarrow> True | _ \<Rightarrow> False)"

text \<open>
  The upstream values of a page or a page size that end as a number at least 1: a
  falsy value, for which the default stands in; a number that is at least 1; a string
  that \<open>parseInt\<close> reads as NaN, as 0 or as a positive number, Infinity included.
\<close>

definition resolvable :: "jsval \<Rightarrow> bool" where
  "resolvable v =
     (\<not> truthy v \<or>
      (case v of
         JNum n \<Rightarrow> 1 \<le> n
       | JInfinity \<Rightarrow> True
       | JStr s \<Rightarrow>
           (case parseInt s of JNum n \<Rightarrow> 0 \<le> n | JNegInfinity \<Rightarrow> False | _ \<Rightarrow> True)
       | _ \<Rightarrow> False))"

text \<open>A filter of the declared type: an object, or none.\<close>

definition object_or_absent :: "jsval \<Rightarrow> bool" where
  "object_or_absent v =
     (case v of JUndefined \<Rightarrow> True | JNull \<Rightarrow> True | JObj kvs \<Rightarrow> True | _ \<Rightarrow> False)"

section \<open>Properties of the query\<close>

subsection \<open>Objects\<close>

lemma get_set_prop: "get_prop (set_prop q k v) k' = (if k' = k then v else get_prop q k')"
  by (simp add: get_prop_def set_prop_def update_conv')

lemma get_delete_prop: "get_prop (delete_prop q k) k' = (if k' = k then JUndefined else get_prop q k')"
  by (simp add: get_prop_def delete_prop_def delete_conv')

lemma Object_keys_truthy: "truthy v \<Longrightarrow> Object_keys v = Inr (remdups (map fst (entries v)))"
  by (cases v) simp_all

lemma hasCustomParams_total: "\<exists>r. hasCustomParams p = Inr r"
  by (auto simp: hasCustomParams_def Let_def Object_keys_truthy split: option.splits)

lemma map_of_pickBy:
  "map_of (pickBy ob (\<lambda>v k. P k)) k = (if P k then map_of ob k else None)"
  by (induction ob) (auto simp: pickBy_def)

lemma keys_pickBy: "fst ` set (pickBy ob (\<lambda>v k. P k)) = {k \<in> fst ` set ob. P k}"
  by (auto simp: pickBy_def image_iff)

subsection \<open>The working query\<close>

lemma selectQuery_url:
  "parseQueryFromLocation L (location a) \<noteq> [] \<Longrightarrow>
   selectQuery L a = Inr (parseQueryFromLocation L (location a))"
  by (cases "parseQueryFromLocation L (location a)") (simp_all add: selectQuery_def Let_def)

lemma selectQuery_stored:
  "parseQueryFromLocation L (location a) = [] \<Longrightarrow> hasCustomParams (params a) = Inr c \<Longrightarrow> truthy c \<Longrightarrow>
   \<exists>p. params a = Some p \<and> selectQuery L a = Inr p"
  by (cases "params a") (auto simp add: selectQuery_def Let_def hasCustomParams_def)

lemma selectQuery_default:
  "parseQueryFromLocation L (location a) = [] \<Longrightarrow> hasCustomParams (params a) = Inr c \<Longrightarrow> \<not> truthy c \<Longrightarrow>
   selectQuery L a = Inr [(''filter'', js_or (filterDefaultValues a) (JObj []))]"
  by (simp add: selectQuery_def Let_def)

lemma selectQuery_total: "\<exists>q. selectQuery L a = Inr q"
proof (cases "parseQueryFromLocation L (location a) = []")
  case False
  then show ?thesis using selectQuery_url by blast
next
  case True
  obtain c where c: "hasCustomParams (params a) = Inr c"
    using hasCustomParams_total by blast
  show ?thesis
    using selectQuery_stored [OF True c] selectQuery_default [OF True c] by (cases "truthy c") auto
qed

lemma parseQueryFromLocation_filter:
  "get_prop (parseQueryFromLocation L loc) ''filter'' =
     (case get_prop (parse L (search loc)) ''filter'' of
        JStr t \<Rightarrow> if t = [] then JStr [] else (case JSON_parse L t of Inr v \<Rightarrow> v | Inl e \<Rightarrow> JUndefined)
      | v \<Rightarrow> v)"
proof -
  define picked where "picked = pickBy (parse L (search loc)) (\<lambda>v k. k \<in> set validQueryParams)"
  have g: "get_prop picked ''filter'' = get_prop (parse L (search loc)) ''filter''"
    by (simp add: get_prop_def picked_def map_of_pickBy validQueryParams_def)
  show ?thesis
    unfolding parseQueryFromLocation_def picked_def [symmetric] Let_def g [symmetric]
    by (auto simp: get_set_prop get_delete_prop split: jsval.splits sum.splits)
qed

subsection \<open>The fields that are filled in\<close>

lemma fillNumbers_page:
  "get_prop (fillNumbers pp q) ''page'' =
     getNumberOrDefault (if truthy (get_prop q ''page'') then get_prop q ''page'' else JNum 1) (JNum 1)"
  by (simp add: fillNumbers_def Let_def get_set_prop)

lemma fillNumbers_perPage:
  "get_prop (fillNumbers pp q) ''perPage'' =
     getNumberOrDefault (if truthy (get_prop q ''perPage'') then get_prop q ''perPage'' else pp) (JNum 10)"
  by (simp add: fillNumbers_def Let_def get_set_prop)

lemma fillNumbers_other:
  "k \<noteq> ''page'' \<Longrightarrow> k \<noteq> ''perPage'' \<Longrightarrow> get_prop (fillNumbers pp q) k = get_prop q k"
  by (simp add: fillNumbers_def Let_def get_set_prop)

lemma get_member_cases:
  "get_member s k = (if not_nullish s then Inr (get_prop (entries s) k) else Inl TypeError)"
  by (auto simp: get_member_def not_nullish_def)

lemma fillQuery_eq:
  "fillQuery s pp q =
     (if truthy (get_prop q ''sort'') then Inr (fillNumbers pp q)
      else if not_nullish s
      then Inr (fillNumbers pp
                  (set_prop (set_prop q ''sort'' (get_prop (entries s) ''field''))
                     ''order'' (get_prop (entries s) ''order'')))
      else Inl TypeError)"
  by (simp add: fillQuery_def get_member_cases)

lemma fillQuery_page:
  "fillQuery s pp q = Inr r \<Longrightarrow>
   get_prop r ''page'' =
     getNumberOrDefault (if truthy (get_prop q ''page'') then get_prop q ''page'' else JNum 1) (JNum 1)"
  by (auto simp: fillQuery_eq fillNumbers_page get_set_prop split: if_splits)

lemma fillQuery_perPage:
  "fillQuery s pp q = Inr r \<Longrightarrow>
   get_prop r ''perPage'' =
     getNumberOrDefault (if truthy (get_prop q ''perPage'') then get_prop q ''perPage'' else pp) (JNum 10)"
  by (auto simp: fillQuery_eq fillNumbers_perPage get_set_prop split: if_splits)

lemma fillQuery_other:
  "fillQuery s pp q = Inr r \<Longrightarrow> k \<notin> {''sort'', ''order'', ''page'', ''perPage''} \<Longrightarrow>
   get_prop r k = get_prop q k"
  by (auto simp: fillQuery_eq fillNumbers_other get_set_prop split: if_splits)

lemma parseInt_cases:
  "parseInt s = JNaN \<or> parseInt s = JInfinity \<or> parseInt s = JNegInfinity
   \<or> (\<exists>k::int. parseInt s = JNum (of_int k))"
  by (simp add: parseInt_def number_of_int_def Let_def)

lemma getNumberOrDefault_truthy: "d \<noteq> 0 \<Longrightarrow> truthy (getNumberOrDefault v (JNum d))"
  by (simp add: getNumberOrDefault_def js_or_def)

lemma getNumberOrDefault_falsy:
  "\<not> truthy v \<Longrightarrow> getNumberOrDefault v d = d"
  by (cases v) (auto simp: getNumberOrDefault_def js_or_def parseInt_def Let_def)

lemma getNumberOrDefault_string:
  "getNumberOrDefault (JStr s) d = (if truthy (parseInt s) then parseInt s else d)"
  by (simp add: getNumberOrDefault_def js_or_def)

lemma getNumberOrDefault_pass:
  "truthy v \<Longrightarrow> \<forall>s. v \<noteq> JStr s \<Longrightarrow> getNumberOrDefault v d = v"
  by (cases v) (auto simp: getNumberOrDefault_def js_or_def)

lemma getQuery_fill:
  "selectQuery L a = Inr q \<Longrightarrow> getQuery L a = fillQuery (sort' a) (perPage a) q"
  by (simp add: getQuery_def)

lemma hasCustomParams_truthy_filter:
  "hasCustomParams (Some p) = Inr c \<Longrightarrow> truthy c \<Longrightarrow> truthy (get_prop p ''filter'')"
  by (auto simp: hasCustomParams_def Let_def split: if_splits)

lemma getQuery_returns:
  "not_nullish (sort' a) \<Longrightarrow> \<exists>q. getQuery L a = Inr q"
  using selectQuery_total [of L a] by (auto simp: getQuery_def fillQuery_eq)

lemma getQuery_throws_iff:
  "getQuery L a = Inl e \<longleftrightarrow>
     e = TypeError \<and> \<not> not_nullish (sort' a) \<and>
     (\<exists>q. selectQuery L a = Inr q \<and> \<not> truthy (get_prop q ''sort''))"
  using selectQuery_total [of L a] by (auto simp: getQuery_def fillQuery_eq split: if_splits)








lemma useListParams_total:
  "\<exists>h. useListParams L opts sp = Inr h \<and> resource h = opt_resource opts
       \<and> debounce h = (case opt_debounce opts of None \<Rightarrow> 500 | Some d \<Rightarrow> d)"
proof -
  have "not_nullish (Sort_value (case opt_sort opts of None \<Rightarrow> defaultSort | Some s \<Rightarrow> s))"
    by (simp add: not_nullish_def Sort_value_def)
  then obtain q where "getQuery L
             \<lparr>location = opt_location opts,
              params = sp,
              filterDefaultValues = opt_filterDefaultValues opts,
              sort' = Sort_value (case opt_sort opts of None \<Rightarrow> defaultSort | Some s \<Rightarrow> s),
              perPage = (case opt_perPage opts of None \<Rightarrow> JNum 10 | Some n \<Rightarrow> n)\<rparr> = Inr q"
    using getQuery_returns
      [of "\<lparr>location = opt_location opts,
              params = sp,
              filterDefaultValues = opt_filterDefaultValues opts,
              sort' = Sort_value (case opt_sort opts of None \<Rightarrow> defaultSort | Some s \<Rightarrow> s),
              perPage = (case opt_perPage opts of None \<Rightarrow> JNum 10 | Some n \<Rightarrow> n)\<rparr>" L]
    by auto
  then show ?thesis by (simp add: useListParams_def)
qed

subsection \<open>Precedence of the three sources\<close>

text \<open>
  Claim C1. \<open>getQuery\<close> takes its working query from one source only. When the query of
  the location has at least one recognized key, the result is that query with the
  missing fields filled from the caller's defaults, and neither the stored params nor
  the default filter change it. When it has none and \<open>hasCustomParams(params)\<close> is
  truthy, the stored params are the working query; otherwise the working query is
  \<open>{filter: filterDefaultValues || {}}\<close>. For the location \<open>?page=3\<close>, the stored params
  \<open>{page: 5, filter: {a: 1}}\<close>, the sort \<open>{field: 'id', order: 'ASC'}\<close> and the page size
  10, the result is \<open>{page: 3, sort: 'id', order: 'ASC', perPage: 10}\<close>, with no filter.
\<close>

theorem getQuery_precedence:
  "(parseQueryFromLocation L (location a) \<noteq> [] \<longrightarrow>
      getQuery L a = fillQuery (sort' a) (perPage a) (parseQueryFromLocation L (location a))
      \<and> getQuery L (a\<lparr>params := p', filterDefaultValues := f'\<rparr>) = getQuery L a)
   \<and> (parseQueryFromLocation L (location a) = [] \<longrightarrow>
        (\<exists>c. hasCustomParams (params a) = Inr c \<and>
          (if truthy c
           then \<exists>p. params a = Some p \<and> getQuery L a = fillQuery (sort' a) (perPage a) p
           else getQuery L a =
                  fillQuery (sort' a) (perPage a)
                    [(''filter'', js_or (filterDefaultValues a) (JObj []))])))
   \<and> (parse L ''?page=3'' = [(''page'', JStr ''3'')] \<longrightarrow>
        getQuery L
          \<lparr>location = \<lparr>search = ''?page=3''\<rparr>,
           params = Some [(''page'', JNum 5), (''filter'', JObj [(''a'', JNum 1)])],
           filterDefaultValues = fdv,
           sort' = JObj [(''field'', JStr ''id''), (''order'', JStr ''ASC'')],
           perPage = JNum 10\<rparr>
        = Inr [(''page'', JNum 3), (''sort'', JStr ''id''), (''order'', JStr ''ASC''),
               (''perPage'', JNum 10)])"
proof (intro conjI impI)
  assume u: "parseQueryFromLocation L (location a) \<noteq> []"
  show "getQuery L a = fillQuery (sort' a) (perPage a) (parseQueryFromLocation L (location a))"
    by (simp add: getQuery_def selectQuery_url [OF u])
  have "parseQueryFromLocation L (location (a\<lparr>params := p', filterDefaultValues := f'\<rparr>)) \<noteq> []"
    using u by simp
  from selectQuery_url [OF this] selectQuery_url [OF u]
  show "getQuery L (a\<lparr>params := p', filterDefaultValues := f'\<rparr>) = getQuery L a"
    by (simp add: getQuery_def)
next
  assume e: "parseQueryFromLocation L (location a) = []"
  obtain c where c: "hasCustomParams (params a) = Inr c"
    using hasCustomParams_total by blast
  show "\<exists>c. hasCustomParams (params a) = Inr c \<and>
          (if truthy c
           then \<exists>p. params a = Some p \<and> getQuery L a = fillQuery (sort' a) (perPage a) p
           else getQuery L a =
                  fillQuery (sort' a) (perPage a)
                    [(''filter'', js_or (filterDefaultValues a) (JObj []))])"
  proof (cases "truthy c")
    case True
    from selectQuery_stored [OF e c True] c True show ?thesis
      by (auto simp: getQuery_def)
  next
    case False
    from selectQuery_default [OF e c False] c False show ?thesis
      by (auto simp: getQuery_def)
  qed
next
  assume p: "parse L ''?page=3'' = [(''page'', JStr ''3'')]"
  let ?a = "\<lparr>location = \<lparr>search = ''?page=3''\<rparr>,
           params = Some [(''page'', JNum 5), (''filter'', JObj [(''a'', JNum 1)])],
           filterDefaultValues = fdv,
           sort' = JObj [(''field'', JStr ''id''), (''order'', JStr ''ASC'')],
           perPage = JNum 10\<rparr>"
  have q: "parseQueryFromLocation L (location ?a) = [(''page'', JStr ''3'')]"
    by (simp add: parseQueryFromLocation_def p pickBy_def validQueryParams_def get_prop_def)
  have s: "selectQuery L ?a = Inr [(''page'', JStr ''3'')]"
    using selectQuery_url [of L ?a] q by simp
  have n: "parseInt ''3'' = JNum 3"
    by code_simp
  show "getQuery L ?a = Inr [(''page'', JNum 3), (''sort'', JStr ''id''), (''order'', JStr ''ASC''),
               (''perPage'', JNum 10)]"
    by (simp add: getQuery_def s fillQuery_def fillNumbers_def get_member_def Let_def
          getNumberOrDefault_def js_or_def n get_prop_def set_prop_def)
qed

text \<open>
  Three instances: the example of the claim, stored custom params that win over an
  empty location, and the default filter that wins over stored params that are not custom.
\<close>

theorem getQuery_precedence_witness:
  "getQuery sample_lib
     \<lparr>location = \<lparr>search = ''?page=3''\<rparr>,
      params = Some [(''page'', JNum 5), (''filter'', JObj [(''a'', JNum 1)])],
      filterDefaultValues = JObj [(''b'', JNum 2)],
      sort' = JObj [(''field'', JStr ''id''), (''order'', JStr ''ASC'')],
      perPage = JNum 10\<rparr>
   = Inr [(''page'', JNum 3), (''sort'', JStr ''id''), (''order'', JStr ''ASC''),
          (''perPage'', JNum 10)]
   \<and> getQuery sample_lib
     \<lparr>location = \<lparr>search = []\<rparr>,
      params = Some [(''filter'', JObj [(''a'', JNum 1)]), (''page'', JNum 2)],
      filterDefaultValues = JUndefined,
      sort' = JObj [(''field'', JStr ''name''), (''order'', JStr ''DESC'')],
      perPage = JNum 25\<rparr>
   = Inr [(''filter'', JObj [(''a'', JNum 1)]), (''page'', JNum 2), (''sort'', JStr ''name''),
          (''order'', JStr ''DESC''), (''perPage'', JNum 25)]
   \<and> getQuery sample_lib
     \<lparr>location = \<lparr>search = []\<rparr>,
      params = Some [(''filter'', JObj []), (''page'', JNum 1)],
      filterDefaultValues = JObj [(''status'', JStr ''open'')],
      sort' = JObj [(''field'', JStr ''id''), (''order'', JStr ''ASC'')],
      perPage = JNum 10\<rparr>
   = Inr [(''filter'', JObj [(''status'', JStr ''open'')]), (''sort'', JStr ''id''),
          (''order'', JStr ''ASC''), (''perPage'', JNum 10), (''page'', JNum 1)]"
proof (intro conjI)
  have p: "parse sample_lib ''?page=3'' = [(''page'', JStr ''3'')]"
    by code_simp
  show "getQuery sample_lib
     \<lparr>location = \<lparr>search = ''?page=3''\<rparr>,
      params = Some [(''page'', JNum 5), (''filter'', JObj [(''a'', JNum 1)])],
      filterDefaultValues = JObj [(''b'', JNum 2)],
      sort' = JObj [(''field'', JStr ''id''), (''order'', JStr ''ASC'')],
      perPage = JNum 10\<rparr>
   = Inr [(''page'', JNum 3), (''sort'', JStr ''id''), (''order'', JStr ''ASC''),
          (''perPage'', JNum 10)]"
    using getQuery_precedence [of sample_lib _ _ _ "JObj [(''b'', JNum 2)]"] p by blast
next
  let ?a = "\<lparr>location = \<lparr>search = []\<rparr>,
      params = Some [(''filter'', JObj [(''a'', JNum 1)]), (''page'', JNum 2)],
      filterDefaultValues = JUndefined,
      sort' = JObj [(''field'', JStr ''name''), (''order'', JStr ''DESC'')],
      perPage = JNum 25\<rparr>"
  have e: "parseQueryFromLocation sample_lib (location ?a) = []"
    by code_simp
  have c: "hasCustomParams (params ?a) = Inr (JBool True)"
    by code_simp
  have f: "fillQuery (sort' ?a) (perPage ?a) [(''filter'', JObj [(''a'', JNum 1)]), (''page'', JNum 2)]
     = Inr [(''filter'', JObj [(''a'', JNum 1)]), (''page'', JNum 2), (''sort'', JStr ''name''),
          (''order'', JStr ''DESC''), (''perPage'', JNum 25)]"
    by code_simp
  from getQuery_precedence [of sample_lib ?a] e c
  have "getQuery sample_lib ?a = fillQuery (sort' ?a) (perPage ?a) [(''filter'', JObj [(''a'', JNum 1)]), (''page'', JNum 2)]"
    by auto
  with f show "getQuery sample_lib ?a = Inr [(''filter'', JObj [(''a'', JNum 1)]), (''page'', JNum 2), (''sort'', JStr ''name''),
          (''order'', JStr ''DESC''), (''perPage'', JNum 25)]"
    by simp
next
  let ?a = "\<lparr>location = \<lparr>search = []\<rparr>,
      params = Some [(''filter'', JObj []), (''page'', JNum 1)],
      filterDefaultValues = JObj [(''status'', JStr ''open'')],
      sort' = JObj [(''field'', JStr ''id''), (''order'', JStr ''ASC'')],
      perPage = JNum 10\<rparr>"
  have e: "parseQueryFromLocation sample_lib (location ?a) = []"
    by code_simp
  have c: "hasCustomParams (params ?a) = Inr (JBool False)"
    by code_simp
  have f: "fillQuery (sort' ?a) (perPage ?a)
             [(''filter'', js_or (filterDefaultValues ?a) (JObj []))]
     = Inr [(''filter'', JObj [(''status'', JStr ''open'')]), (''sort'', JStr ''id''),
          (''order'', JStr ''ASC''), (''perPage'', JNum 10), (''page'', JNum 1)]"
    by code_simp
  from getQuery_precedence [of sample_lib ?a] e c
  have "getQuery sample_lib ?a =
          fillQuery (sort' ?a) (perPage ?a)
            [(''filter'', js_or (filterDefaultValues ?a) (JObj []))]"
    by auto
  with f show "getQuery sample_lib ?a
     = Inr [(''filter'', JObj [(''status'', JStr ''open'')]), (''sort'', JStr ''id''),
          (''order'', JStr ''ASC''), (''perPage'', JNum 10), (''page'', JNum 1)]"
    by simp
qed

subsection \<open>Page and page size\<close>

lemma getNumberOrDefault_default:
  "getNumberOrDefault (if truthy v then v else JNum d) (JNum d) = getNumberOrDefault v (JNum d)"
  by (simp add: getNumberOrDefault_falsy) (simp add: getNumberOrDefault_def js_or_def)

lemma parseInt_Nil: "parseInt [] = JNaN"
  by (simp add: parseInt_def)

lemma getNumberOrDefault_at_least_one:
  assumes "1 \<le> d"
  shows "at_least_one (getNumberOrDefault v (JNum d)) \<longleftrightarrow> resolvable v"
proof (cases v)
  case (JStr s)
  from parseInt_cases [of s]
  consider "parseInt s = JNaN" | "parseInt s = JInfinity" | "parseInt s = JNegInfinity"
    | k :: int where "parseInt s = JNum (of_int k)"
    by blast
  then show ?thesis
  proof cases
    case 1
    with JStr assms show ?thesis
      by (simp add: getNumberOrDefault_string resolvable_def at_least_one_def)
  next
    case 2
    with JStr assms show ?thesis
      by (simp add: getNumberOrDefault_string resolvable_def at_least_one_def)
  next
    case 3
    with JStr assms parseInt_Nil show ?thesis
      by (cases "s = []") (auto simp: getNumberOrDefault_string resolvable_def at_least_one_def)
  next
    case 4
    have "(1::rat) \<le> of_int k \<longleftrightarrow> 1 \<le> k" by simp
    moreover have "(0::rat) \<le> of_int k \<longleftrightarrow> 0 \<le> k" by simp
    ultimately show ?thesis
      using JStr assms 4 parseInt_Nil
      by (cases "s = []") (auto simp: getNumberOrDefault_string resolvable_def at_least_one_def)
  qed
qed (use assms in \<open>auto simp: getNumberOrDefault_def js_or_def resolvable_def at_least_one_def\<close>)

text \<open>
  Claim C2, as the code has it. Let the upstream value be the \<open>page\<close> of the working
  query and, for the page size, the \<open>perPage\<close> of the working query or, when that is
  falsy, the caller's default. \<open>getQuery\<close> returns unless the caller's \<open>sort\<close> is undefined
  or null and the working query has no sort. In every merged output \<open>page\<close> and \<open>perPage\<close>
  are truthy: never undefined, null, NaN or 0. A field is a number that is at least 1
  exactly when its upstream value is falsy, a number that is at least 1, or a string that
  \<open>parseInt\<close> reads as NaN, as 0 or as a positive number: a falsy page gives 1, a falsy
  page size gives 10, and a string that \<open>parseInt\<close> reads as NaN or as 0 gives 1 and 10.
  Every other truthy value that is not a string is passed on as it is, a negative number
  and a fraction below 1 too; a string is passed on as the number \<open>parseInt\<close> reads.
\<close>

theorem getQuery_page_perPage:
  "\<exists>q. selectQuery L a = Inr q
     \<and> (not_nullish (sort' a) \<or> truthy (get_prop q ''sort'') \<longrightarrow> (\<exists>r. getQuery L a = Inr r))
     \<and> (\<forall>r. getQuery L a = Inr r \<longrightarrow>
          truthy (get_prop r ''page'') \<and> truthy (get_prop r ''perPage'')
          \<and> (at_least_one (get_prop r ''page'') \<longleftrightarrow> resolvable (get_prop q ''page''))
          \<and> (at_least_one (get_prop r ''perPage'') \<longleftrightarrow>
                resolvable (js_or (get_prop q ''perPage'') (perPage a)))
          \<and> (\<not> truthy (get_prop q ''page'') \<longrightarrow> get_prop r ''page'' = JNum 1)
          \<and> (\<not> truthy (js_or (get_prop q ''perPage'') (perPage a)) \<longrightarrow>
                get_prop r ''perPage'' = JNum 10)
          \<and> (\<forall>s. get_prop q ''page'' = JStr s \<longrightarrow>
                get_prop r ''page'' = (if truthy (parseInt s) then parseInt s else JNum 1))
          \<and> (\<forall>s. js_or (get_prop q ''perPage'') (perPage a) = JStr s \<longrightarrow>
                get_prop r ''perPage'' = (if truthy (parseInt s) then parseInt s else JNum 10))
          \<and> (truthy (get_prop q ''page'') \<and> (\<forall>s. get_prop q ''page'' \<noteq> JStr s) \<longrightarrow>
                get_prop r ''page'' = get_prop q ''page'')
          \<and> (truthy (js_or (get_prop q ''perPage'') (perPage a))
              \<and> (\<forall>s. js_or (get_prop q ''perPage'') (perPage a) \<noteq> JStr s) \<longrightarrow>
                get_prop r ''perPage'' = js_or (get_prop q ''perPage'') (perPage a)))"
proof -
  obtain q where q: "selectQuery L a = Inr q"
    using selectQuery_total by blast
  define pg where "pg = get_prop q ''page''"
  define pp where "pp = js_or (get_prop q ''perPage'') (perPage a)"
  have ret: "not_nullish (sort' a) \<or> truthy (get_prop q ''sort'') \<longrightarrow> (\<exists>r. getQuery L a = Inr r)"
    by (auto simp: getQuery_fill [OF q] fillQuery_eq)
  have props: "truthy (get_prop r ''page'') \<and> truthy (get_prop r ''perPage'')
          \<and> (at_least_one (get_prop r ''page'') \<longleftrightarrow> resolvable pg)
          \<and> (at_least_one (get_prop r ''perPage'') \<longleftrightarrow> resolvable pp)
          \<and> (\<not> truthy pg \<longrightarrow> get_prop r ''page'' = JNum 1)
          \<and> (\<not> truthy pp \<longrightarrow> get_prop r ''perPage'' = JNum 10)
          \<and> (\<forall>s. pg = JStr s \<longrightarrow>
                get_prop r ''page'' = (if truthy (parseInt s) then parseInt s else JNum 1))
          \<and> (\<forall>s. pp = JStr s \<longrightarrow>
                get_prop r ''perPage'' = (if truthy (parseInt s) then parseInt s else JNum 10))
          \<and> (truthy pg \<and> (\<forall>s. pg \<noteq> JStr s) \<longrightarrow> get_prop r ''page'' = pg)
          \<and> (truthy pp \<and> (\<forall>s. pp \<noteq> JStr s) \<longrightarrow> get_prop r ''perPage'' = pp)"
    if r: "getQuery L a = Inr r" for r
  proof -
    from r have f: "fillQuery (sort' a) (perPage a) q = Inr r"
      by (simp add: getQuery_fill [OF q])
    have page: "get_prop r ''page'' = getNumberOrDefault pg (JNum 1)"
      using fillQuery_page [OF f] by (simp add: pg_def getNumberOrDefault_default)
    have perPage: "get_prop r ''perPage'' = getNumberOrDefault pp (JNum 10)"
      using fillQuery_perPage [OF f] by (simp add: pp_def js_or_def)
    have t: "truthy (get_prop r ''page'')" "truthy (get_prop r ''perPage'')"
      by (simp_all add: page perPage getNumberOrDefault_truthy)
    have a1: "at_least_one (get_prop r ''page'') \<longleftrightarrow> resolvable pg"
      unfolding page by (rule getNumberOrDefault_at_least_one) simp
    have a2: "at_least_one (get_prop r ''perPage'') \<longleftrightarrow> resolvable pp"
      unfolding perPage by (rule getNumberOrDefault_at_least_one) simp
    have f1: "\<not> truthy pg \<longrightarrow> get_prop r ''page'' = JNum 1"
      by (simp add: page getNumberOrDefault_falsy)
    have f2: "\<not> truthy pp \<longrightarrow> get_prop r ''perPage'' = JNum 10"
      by (simp add: perPage getNumberOrDefault_falsy)
    have s1: "\<forall>s. pg = JStr s \<longrightarrow>
                get_prop r ''page'' = (if truthy (parseInt s) then parseInt s else JNum 1)"
      by (simp add: page getNumberOrDefault_string)
    have s2: "\<forall>s. pp = JStr s \<longrightarrow>
                get_prop r ''perPage'' = (if truthy (parseInt s) then parseInt s else JNum 10)"
      by (simp add: perPage getNumberOrDefault_string)
    have p1: "truthy pg \<and> (\<forall>s. pg \<noteq> JStr s) \<longrightarrow> get_prop r ''page'' = pg"
      by (simp add: page getNumberOrDefault_pass)
    have p2: "truthy pp \<and> (\<forall>s. pp \<noteq> JStr s) \<longrightarrow> get_prop r ''perPage'' = pp"
      by (simp add: perPage getNumberOrDefault_pass)
    from t a1 a2 f1 f2 s1 s2 p1 p2 show ?thesis by blast
  qed
  from q ret props show ?thesis
    unfolding pg_def pp_def by blast
qed

text \<open>
  The fields are not always at least 1. With negative values: the location
  \<open>?page=-5&perPage=-3\<close> gives the page -5 and the page size -3. With fractions: the
  stored params \<open>{filter: {}, page: 0.5, perPage: 2.5}\<close> give the page 0.5.
\<close>

theorem getQuery_negative_page_counterexample:
  "getQuery sample_lib
     \<lparr>location = \<lparr>search = ''?page=-5&perPage=-3''\<rparr>,
      params = None,
      filterDefaultValues = JUndefined,
      sort' = JObj [(''field'', JStr ''id''), (''order'', JStr ''ASC'')],
      perPage = JNum 10\<rparr>
   = Inr [(''page'', JNum (- 5)), (''perPage'', JNum (- 3)), (''sort'', JStr ''id''),
          (''order'', JStr ''ASC'')]
   \<and> getQuery sample_lib
     \<lparr>location = \<lparr>search = []\<rparr>,
      params = Some [(''filter'', JObj []), (''page'', JNum (1 / 2)), (''perPage'', JNum (5 / 2))],
      filterDefaultValues = JUndefined,
      sort' = JObj [(''field'', JStr ''id''), (''order'', JStr ''ASC'')],
      perPage = JNum 10\<rparr>
   = Inr [(''filter'', JObj []), (''page'', JNum (1 / 2)), (''perPage'', JNum (5 / 2)),
          (''sort'', JStr ''id''), (''order'', JStr ''ASC'')]"
  by code_simp

text \<open>
  An instance: the location \<open>?page=abc&perPage=0\<close> has resolvable values, and gives the
  page 1 and the page size 10, not the caller's 25.
\<close>

theorem getQuery_page_perPage_witness:
  "selectQuery sample_lib
     \<lparr>location = \<lparr>search = ''?page=abc&perPage=0''\<rparr>, params = None,
      filterDefaultValues = JUndefined,
      sort' = JObj [(''field'', JStr ''id''), (''order'', JStr ''ASC'')],
      perPage = JNum 25\<rparr>
   = Inr [(''page'', JStr ''abc''), (''perPage'', JStr ''0'')]
   \<and> not_nullish (JObj [(''field'', JStr ''id''), (''order'', JStr ''ASC'')])
   \<and> resolvable (JStr ''abc'') \<and> resolvable (JStr ''0'')
   \<and> (\<exists>r. getQuery sample_lib
            \<lparr>location = \<lparr>search = ''?page=abc&perPage=0''\<rparr>, params = None,
             filterDefaultValues = JUndefined,
             sort' = JObj [(''field'', JStr ''id''), (''order'', JStr ''ASC'')],
             perPage = JNum 25\<rparr> = Inr r
          \<and> get_prop r ''page'' = JNum 1 \<and> get_prop r ''perPage'' = JNum 10
          \<and> at_least_one (get_prop r ''page'') \<and> at_least_one (get_prop r ''perPage''))"
proof -
  let ?a = "\<lparr>location = \<lparr>search = ''?page=abc&perPage=0''\<rparr>, params = None,
      filterDefaultValues = JUndefined,
      sort' = JObj [(''field'', JStr ''id''), (''order'', JStr ''ASC'')],
      perPage = JNum 25\<rparr>"
  have s: "selectQuery sample_lib ?a = Inr [(''page'', JStr ''abc''), (''perPage'', JStr ''0'')]"
    by code_simp
  have n: "not_nullish (sort' ?a)"
    by (simp add: not_nullish_def)
  have v: "resolvable (JStr ''abc'')" "resolvable (JStr ''0'')"
    by code_simp+
  have p: "\<not> truthy (parseInt ''abc'')" "\<not> truthy (parseInt ''0'')"
    by code_simp+
  have g: "get_prop [(''page'', JStr ''abc''), (''perPage'', JStr ''0'')] ''page'' = JStr ''abc''"
    "js_or (get_prop [(''page'', JStr ''abc''), (''perPage'', JStr ''0'')] ''perPage'') (perPage ?a) = JStr ''0''"
    by code_simp+
  from getQuery_page_perPage [of sample_lib ?a] s n v p g
  have "\<exists>r. getQuery sample_lib ?a = Inr r
          \<and> get_prop r ''page'' = JNum 1 \<and> get_prop r ''perPage'' = JNum 10
          \<and> at_least_one (get_prop r ''page'') \<and> at_least_one (get_prop r ''perPage'')"
    by auto
  with s n v show ?thesis by simp
qed

subsection \<open>The filter of the merged query\<close>

text \<open>
  Claim C3, as the code has it. The \<open>filter\<close> of the merged output is the filter of the
  working query. When the location yields no recognized key it is truthy, and it is an
  object whenever the stored filter and \<open>filterDefaultValues\<close> are objects or absent.
  When the location yields a recognized key it is the filter read from the location:
  the value that \<open>JSON.parse\<close> gives for a non-empty filter string, undefined when
  \<open>JSON.parse\<close> rejects that string, and otherwise the filter of the query string as it
  is, so undefined when the query string has none and the empty string for \<open>?filter=\<close>.
  \<open>getQuery\<close> returns unless the caller's \<open>sort\<close> is undefined or null and the working
  query has no sort. The hook's own \<open>filterValues\<close>, \<open>query.filter || {}\<close>, is truthy in
  every case.
\<close>

theorem getQuery_filter:
  "\<exists>q. selectQuery L a = Inr q
     \<and> (not_nullish (sort' a) \<or> truthy (get_prop q ''sort'') \<longrightarrow> (\<exists>r. getQuery L a = Inr r))
     \<and> (\<forall>r. getQuery L a = Inr r \<longrightarrow>
          get_prop r ''filter'' = get_prop q ''filter''
          \<and> (parseQueryFromLocation L (location a) \<noteq> [] \<longrightarrow>
               (\<forall>t v. get_prop (parse L (search (location a))) ''filter'' = JStr t \<and> t \<noteq> []
                      \<and> JSON_parse L t = Inr v \<longrightarrow> get_prop r ''filter'' = v)
               \<and> (\<forall>t e. get_prop (parse L (search (location a))) ''filter'' = JStr t \<and> t \<noteq> []
                      \<and> JSON_parse L t = Inl e \<longrightarrow> get_prop r ''filter'' = JUndefined)
               \<and> ((\<forall>t. get_prop (parse L (search (location a))) ''filter'' = JStr t \<longrightarrow> t = []) \<longrightarrow>
                     get_prop r ''filter'' = get_prop (parse L (search (location a))) ''filter''))
          \<and> (parseQueryFromLocation L (location a) = [] \<longrightarrow> truthy (get_prop r ''filter''))
          \<and> (parseQueryFromLocation L (location a) = [] \<and> object_or_absent (filterDefaultValues a)
               \<and> (\<forall>p. params a = Some p \<longrightarrow> object_or_absent (get_prop p ''filter'')) \<longrightarrow>
               (\<exists>kvs. get_prop r ''filter'' = JObj kvs)))
     \<and> (\<exists>h. useListParams L opts storeParams = Inr h \<and> truthy (filterValues h))"
proof -
  obtain q where q: "selectQuery L a = Inr q"
    using selectQuery_total by blast
  have ret: "not_nullish (sort' a) \<or> truthy (get_prop q ''sort'') \<longrightarrow> (\<exists>r. getQuery L a = Inr r)"
    by (auto simp: getQuery_fill [OF q] fillQuery_eq)
  obtain c where c: "hasCustomParams (params a) = Inr c"
    using hasCustomParams_total by blast
  let ?raw = "get_prop (parse L (search (location a))) ''filter''"
  have props: "get_prop r ''filter'' = get_prop q ''filter''
          \<and> (parseQueryFromLocation L (location a) \<noteq> [] \<longrightarrow>
               (\<forall>t v. ?raw = JStr t \<and> t \<noteq> [] \<and> JSON_parse L t = Inr v \<longrightarrow> get_prop r ''filter'' = v)
               \<and> (\<forall>t e. ?raw = JStr t \<and> t \<noteq> [] \<and> JSON_parse L t = Inl e \<longrightarrow>
                      get_prop r ''filter'' = JUndefined)
               \<and> ((\<forall>t. ?raw = JStr t \<longrightarrow> t = []) \<longrightarrow> get_prop r ''filter'' = ?raw))
          \<and> (parseQueryFromLocation L (location a) = [] \<longrightarrow> truthy (get_prop r ''filter''))
          \<and> (parseQueryFromLocation L (location a) = [] \<and> object_or_absent (filterDefaultValues a)
               \<and> (\<forall>p. params a = Some p \<longrightarrow> object_or_absent (get_prop p ''filter'')) \<longrightarrow>
               (\<exists>kvs. get_prop r ''filter'' = JObj kvs))"
    if r: "getQuery L a = Inr r" for r
  proof -
    from r have fq: "fillQuery (sort' a) (perPage a) q = Inr r"
      by (simp add: getQuery_fill [OF q])
    have f: "get_prop r ''filter'' = get_prop q ''filter''"
      by (rule fillQuery_other [OF fq]) simp
    have u: "parseQueryFromLocation L (location a) \<noteq> [] \<longrightarrow>
               (\<forall>t v. ?raw = JStr t \<and> t \<noteq> [] \<and> JSON_parse L t = Inr v \<longrightarrow> get_prop r ''filter'' = v)
               \<and> (\<forall>t e. ?raw = JStr t \<and> t \<noteq> [] \<and> JSON_parse L t = Inl e \<longrightarrow>
                      get_prop r ''filter'' = JUndefined)
               \<and> ((\<forall>t. ?raw = JStr t \<longrightarrow> t = []) \<longrightarrow> get_prop r ''filter'' = ?raw)"
    proof
      assume "parseQueryFromLocation L (location a) \<noteq> []"
      with selectQuery_url [of L a] q have "q = parseQueryFromLocation L (location a)"
        by simp
      then have "get_prop r ''filter'' =
          (case ?raw of
             JStr t \<Rightarrow> if t = [] then JStr [] else (case JSON_parse L t of Inr v \<Rightarrow> v | Inl e \<Rightarrow> JUndefined)
           | v \<Rightarrow> v)"
        by (simp add: f parseQueryFromLocation_filter)
      then show "(\<forall>t v. ?raw = JStr t \<and> t \<noteq> [] \<and> JSON_parse L t = Inr v \<longrightarrow> get_prop r ''filter'' = v)
               \<and> (\<forall>t e. ?raw = JStr t \<and> t \<noteq> [] \<and> JSON_parse L t = Inl e \<longrightarrow>
                      get_prop r ''filter'' = JUndefined)
               \<and> ((\<forall>t. ?raw = JStr t \<longrightarrow> t = []) \<longrightarrow> get_prop r ''filter'' = ?raw)"
        by (cases ?raw) auto
    qed
    have t: "parseQueryFromLocation L (location a) = [] \<longrightarrow> truthy (get_prop r ''filter'')"
    proof
      assume e: "parseQueryFromLocation L (location a) = []"
      show "truthy (get_prop r ''filter'')"
      proof (cases "truthy c")
        case True
        from selectQuery_stored [OF e c True] obtain p where p: "params a = Some p" "selectQuery L a = Inr p"
          by blast
        with q c True show ?thesis
          using hasCustomParams_truthy_filter [of p c] by (simp add: f)
      next
        case False
        from selectQuery_default [OF e c False] q
        have "get_prop q ''filter'' = js_or (filterDefaultValues a) (JObj [])"
          by (simp add: get_prop_def)
        then show ?thesis
          by (simp add: f js_or_def)
      qed
    qed
    have ob: "parseQueryFromLocation L (location a) = [] \<and> object_or_absent (filterDefaultValues a)
            \<and> (\<forall>p. params a = Some p \<longrightarrow> object_or_absent (get_prop p ''filter'')) \<longrightarrow>
            (\<exists>kvs. get_prop r ''filter'' = JObj kvs)"
    proof (intro impI, elim conjE)
      assume e: "parseQueryFromLocation L (location a) = []"
        and d: "object_or_absent (filterDefaultValues a)"
        and s: "\<forall>p. params a = Some p \<longrightarrow> object_or_absent (get_prop p ''filter'')"
      show "\<exists>kvs. get_prop r ''filter'' = JObj kvs"
      proof (cases "truthy c")
        case True
        from selectQuery_stored [OF e c True] obtain p where p: "params a = Some p" "selectQuery L a = Inr p"
          by blast
        from p s have "object_or_absent (get_prop p ''filter'')" by simp
        moreover have "truthy (get_prop p ''filter'')"
          using hasCustomParams_truthy_filter [of p c] c p True by simp
        ultimately show ?thesis using p q
          by (cases "get_prop p ''filter''") (auto simp: f object_or_absent_def)
      next
        case False
        from selectQuery_default [OF e c False] q
        have "get_prop q ''filter'' = js_or (filterDefaultValues a) (JObj [])"
          by (simp add: get_prop_def)
        with d show ?thesis
          by (cases "filterDefaultValues a") (auto simp: f js_or_def object_or_absent_def)
      qed
    qed
    from f u t ob show ?thesis by blast
  qed
  have fv: "\<exists>h. useListParams L opts storeParams = Inr h \<and> truthy (filterValues h)"
    using useListParams_total [of L opts storeParams]
    by (auto simp: filterValues_def js_or_def emptyObject_def)
  from q ret props fv show ?thesis by blast
qed

text \<open>
  The filter of the merged output can be undefined: the location \<open>?sort=title&order=DESC\<close>
  wins over the stored params and over the default filter, and has no filter.
\<close>

theorem getQuery_filter_absent_counterexample:
  "getQuery sample_lib
     \<lparr>location = \<lparr>search = ''?sort=title&order=DESC''\<rparr>,
      params = Some [(''filter'', JObj [(''a'', JNum 1)]), (''page'', JNum 2)],
      filterDefaultValues = JObj [(''b'', JNum 2)],
      sort' = JObj [(''field'', JStr ''id''), (''order'', JStr ''ASC'')],
      perPage = JNum 10\<rparr>
   = Inr [(''order'', JStr ''DESC''), (''sort'', JStr ''title''), (''perPage'', JNum 10),
          (''page'', JNum 1)]
   \<and> get_prop [(''order'', JStr ''DESC''), (''sort'', JStr ''title''), (''perPage'', JNum 10),
          (''page'', JNum 1)] ''filter'' = JUndefined"
  by code_simp

text \<open>
  Three instances: with no location query, stored params that are not custom and the
  default filter \<open>{status: 'open'}\<close> the filter is an object; with the location \<open>?page=3\<close>
  it is undefined; with the location \<open>?filter=&page=2\<close> it is the empty string.
\<close>

theorem getQuery_filter_witness:
  "parseQueryFromLocation sample_lib \<lparr>search = []\<rparr> = []
   \<and> object_or_absent (JObj [(''status'', JStr ''open'')])
   \<and> object_or_absent (JObj [])
   \<and> (\<exists>r kvs. getQuery sample_lib
            \<lparr>location = \<lparr>search = []\<rparr>,
             params = Some [(''filter'', JObj []), (''page'', JNum 1)],
             filterDefaultValues = JObj [(''status'', JStr ''open'')],
             sort' = JObj [(''field'', JStr ''id''), (''order'', JStr ''ASC'')],
             perPage = JNum 10\<rparr> = Inr r
          \<and> get_prop r ''filter'' = JObj kvs)
   \<and> parseQueryFromLocation sample_lib \<lparr>search = ''?page=3''\<rparr> = [(''page'', JStr ''3'')]
   \<and> (\<exists>r. getQuery sample_lib
            \<lparr>location = \<lparr>search = ''?page=3''\<rparr>,
             params = None,
             filterDefaultValues = JUndefined,
             sort' = JObj [(''field'', JStr ''id''), (''order'', JStr ''ASC'')],
             perPage = JNum 10\<rparr> = Inr r
          \<and> get_prop r ''filter'' = JUndefined)
   \<and> parse sample_lib ''?filter=&page=2'' = [(''filter'', JStr []), (''page'', JStr ''2'')]
   \<and> (\<exists>r. getQuery sample_lib
            \<lparr>location = \<lparr>search = ''?filter=&page=2''\<rparr>,
             params = None,
             filterDefaultValues = JUndefined,
             sort' = JObj [(''field'', JStr ''id''), (''order'', JStr ''ASC'')],
             perPage = JNum 10\<rparr> = Inr r
          \<and> get_prop r ''filter'' = JStr [])"
proof -
  let ?s = "JObj [(''field'', JStr ''id''), (''order'', JStr ''ASC'')]"
  let ?a = "\<lparr>location = \<lparr>search = []\<rparr>,
             params = Some [(''filter'', JObj []), (''page'', JNum 1)],
             filterDefaultValues = JObj [(''status'', JStr ''open'')],
             sort' = ?s,
             perPage = JNum 10\<rparr>"
  let ?b = "\<lparr>location = \<lparr>search = ''?page=3''\<rparr>,
             params = None,
             filterDefaultValues = JUndefined,
             sort' = ?s,
             perPage = JNum 10\<rparr>"
  let ?c = "\<lparr>location = \<lparr>search = ''?filter=&page=2''\<rparr>,
             params = None,
             filterDefaultValues = JUndefined,
             sort' = ?s,
             perPage = JNum 10\<rparr>"
  let ?o = "\<lparr>opt_resource = ''posts'', opt_location = \<lparr>search = []\<rparr>,
             opt_filterDefaultValues = JUndefined, opt_sort = None, opt_perPage = None,
             opt_debounce = None\<rparr>"
  have n: "not_nullish ?s"
    by (simp add: not_nullish_def)
  have e: "parseQueryFromLocation sample_lib \<lparr>search = []\<rparr> = []"
    by code_simp
  have o: "object_or_absent (JObj [(''status'', JStr ''open'')])" "object_or_absent (JObj [])"
    by (simp_all add: object_or_absent_def)
  have s: "\<forall>p. params ?a = Some p \<longrightarrow> object_or_absent (get_prop p ''filter'')"
    by (simp add: get_prop_def object_or_absent_def)
  from getQuery_filter [of sample_lib ?a ?o None] n e o s
  have 1: "\<exists>r kvs. getQuery sample_lib ?a = Inr r \<and> get_prop r ''filter'' = JObj kvs"
    by (simp del: ex_simps) blast
  have u: "parseQueryFromLocation sample_lib \<lparr>search = ''?page=3''\<rparr> = [(''page'', JStr ''3'')]"
    by code_simp
  have g: "get_prop (parse sample_lib (search (location ?b))) ''filter'' = JUndefined"
    by code_simp
  from getQuery_filter [of sample_lib ?b ?o None] n u g
  have 2: "\<exists>r. getQuery sample_lib ?b = Inr r \<and> get_prop r ''filter'' = JUndefined"
    by (simp del: ex_simps) blast
  have p: "parse sample_lib ''?filter=&page=2'' = [(''filter'', JStr []), (''page'', JStr ''2'')]"
    by code_simp
  have u': "parseQueryFromLocation sample_lib (location ?c) \<noteq> []"
    by code_simp
  have g': "get_prop (parse sample_lib (search (location ?c))) ''filter'' = JStr []"
    by code_simp
  from getQuery_filter [of sample_lib ?c ?o None] n u' g'
  have 3: "\<exists>r. getQuery sample_lib ?c = Inr r \<and> get_prop r ''filter'' = JStr []"
    by (simp del: ex_simps) blast
  from e o 1 u 2 p 3 show ?thesis by simp
qed

subsection \<open>A filter that is not JSON, and exceptions\<close>

lemma parseQueryFromLocation_kept:
  "(\<forall>t. get_prop (parse L (search loc)) ''filter'' = JStr t \<longrightarrow> t = []) \<Longrightarrow>
   parseQueryFromLocation L loc = pickBy (parse L (search loc)) (\<lambda>v k. k \<in> set validQueryParams)"
proof -
  assume h: "\<forall>t. get_prop (parse L (search loc)) ''filter'' = JStr t \<longrightarrow> t = []"
  define picked where "picked = pickBy (parse L (search loc)) (\<lambda>v k. k \<in> set validQueryParams)"
  have g: "get_prop picked ''filter'' = get_prop (parse L (search loc)) ''filter''"
    by (simp add: get_prop_def picked_def map_of_pickBy validQueryParams_def)
  show ?thesis
    unfolding parseQueryFromLocation_def picked_def [symmetric] Let_def
    using h by (auto simp: g split: jsval.splits)
qed

text \<open>
  Claim C4, as the code has it. When the \<open>filter\<close> of the query string is a non-empty
  string that \<open>JSON.parse\<close> rejects, \<open>parseQueryFromLocation\<close> returns the other
  recognized keys with their values and no \<open>filter\<close> key. A filter that is the empty
  string, or that is not a string, is not parsed: the recognized keys are returned as
  they are, so the empty string stays. \<open>parseQueryFromLocation\<close> throws nothing.
  \<open>getQuery\<close> throws nothing when the caller's \<open>sort\<close> is neither undefined nor null,
  whatever the query string, the stored params and the other defaults are; it throws,
  a TypeError, exactly when \<open>sort\<close> is undefined or null and the working query has no
  truthy sort.
\<close>

theorem parseQueryFromLocation_invalid_filter:
  "(get_prop (parse L (search loc)) ''filter'' = JStr t \<and> t \<noteq> [] \<and> JSON_parse L t = Inl e \<longrightarrow>
      fst ` set (parseQueryFromLocation L loc) =
        {k \<in> fst ` set (parse L (search loc)). k \<in> set validQueryParams \<and> k \<noteq> ''filter''}
      \<and> (\<forall>k \<in> set validQueryParams. k \<noteq> ''filter'' \<longrightarrow>
            get_prop (parseQueryFromLocation L loc) k = get_prop (parse L (search loc)) k)
      \<and> get_prop (parseQueryFromLocation L loc) ''filter'' = JUndefined)
   \<and> ((\<forall>t. get_prop (parse L (search loc)) ''filter'' = JStr t \<longrightarrow> t = []) \<longrightarrow>
        parseQueryFromLocation L loc =
          pickBy (parse L (search loc)) (\<lambda>v k. k \<in> set validQueryParams))
   \<and> (get_prop (parse L (search loc)) ''filter'' = JStr [] \<longrightarrow>
        get_prop (parseQueryFromLocation L loc) ''filter'' = JStr [])
   \<and> (not_nullish (sort' a) \<longrightarrow> (\<exists>q. getQuery L a = Inr q))
   \<and> (\<forall>err. getQuery L a = Inl err \<longleftrightarrow>
          err = TypeError \<and> \<not> not_nullish (sort' a) \<and>
          (\<exists>q. selectQuery L a = Inr q \<and> \<not> truthy (get_prop q ''sort'')))"
proof (intro conjI impI allI)
  assume h: "get_prop (parse L (search loc)) ''filter'' = JStr t \<and> t \<noteq> [] \<and> JSON_parse L t = Inl e"
  define picked where "picked = pickBy (parse L (search loc)) (\<lambda>v k. k \<in> set validQueryParams)"
  have g: "\<And>k. get_prop picked k = (if k \<in> set validQueryParams then get_prop (parse L (search loc)) k else JUndefined)"
    by (simp add: get_prop_def picked_def map_of_pickBy)
  have "get_prop picked ''filter'' = JStr t"
    using h by (simp add: g validQueryParams_def)
  with h have p: "parseQueryFromLocation L loc = delete_prop picked ''filter''"
    by (simp add: parseQueryFromLocation_def picked_def [symmetric])
  show "fst ` set (parseQueryFromLocation L loc) =
        {k \<in> fst ` set (parse L (search loc)). k \<in> set validQueryParams \<and> k \<noteq> ''filter''}"
    unfolding p delete_prop_def picked_def
    by (auto simp: AList.delete_eq keys_pickBy image_iff pickBy_def)
  show "\<forall>k \<in> set validQueryParams. k \<noteq> ''filter'' \<longrightarrow>
            get_prop (parseQueryFromLocation L loc) k = get_prop (parse L (search loc)) k"
    by (simp add: p get_delete_prop g)
  show "get_prop (parseQueryFromLocation L loc) ''filter'' = JUndefined"
    by (simp add: p get_delete_prop)
next
  assume "\<forall>t. get_prop (parse L (search loc)) ''filter'' = JStr t \<longrightarrow> t = []"
  then show "parseQueryFromLocation L loc =
          pickBy (parse L (search loc)) (\<lambda>v k. k \<in> set validQueryParams)"
    by (rule parseQueryFromLocation_kept)
next
  assume "get_prop (parse L (search loc)) ''filter'' = JStr []"
  then show "get_prop (parseQueryFromLocation L loc) ''filter'' = JStr []"
    by (simp add: parseQueryFromLocation_kept get_prop_def map_of_pickBy validQueryParams_def)
next
  assume "not_nullish (sort' a)"
  then show "\<exists>q. getQuery L a = Inr q" by (rule getQuery_returns)
next
  fix err
  show "getQuery L a = Inl err \<longleftrightarrow>
          err = TypeError \<and> \<not> not_nullish (sort' a) \<and>
          (\<exists>q. selectQuery L a = Inr q \<and> \<not> truthy (get_prop q ''sort''))"
    by (rule getQuery_throws_iff)
qed

text \<open>
  The empty string is not a JSON text, and it is kept: the filter is parsed only when it
  is truthy, so \<open>?filter=&page=2\<close> yields \<open>{filter: '', page: '2'}\<close>. And \<open>getQuery\<close>
  throws for the query string \<open>?page=3\<close> when it is given no sort.
\<close>

theorem parseQueryFromLocation_empty_filter_counterexample:
  "JSON_parse sample_lib [] = Inl SyntaxError
   \<and> parseQueryFromLocation sample_lib \<lparr>search = ''?filter=&page=2''\<rparr>
       = [(''filter'', JStr []), (''page'', JStr ''2'')]
   \<and> getQuery sample_lib
       \<lparr>location = \<lparr>search = ''?page=3''\<rparr>, params = None, filterDefaultValues = JUndefined,
        sort' = JUndefined, perPage = JNum 10\<rparr> = Inl TypeError"
  by code_simp

text \<open>
  Instances: \<open>?filter=oops&page=2&x=1\<close> yields \<open>{page: '2'}\<close>; with a sort object,
  \<open>getQuery\<close> returns for it; with an undefined sort and the location \<open>?sort=title\<close>, it
  returns too.
\<close>

theorem parseQueryFromLocation_invalid_filter_witness:
  "get_prop (parse sample_lib ''?filter=oops&page=2&x=1'') ''filter'' = JStr ''oops''
   \<and> JSON_parse sample_lib ''oops'' = Inl SyntaxError
   \<and> fst ` set (parseQueryFromLocation sample_lib \<lparr>search = ''?filter=oops&page=2&x=1''\<rparr>) = {''page''}
   \<and> get_prop (parseQueryFromLocation sample_lib \<lparr>search = ''?filter=oops&page=2&x=1''\<rparr>) ''page''
       = JStr ''2''
   \<and> not_nullish (JObj [(''field'', JStr ''id''), (''order'', JStr ''ASC'')])
   \<and> (\<exists>q. getQuery sample_lib
            \<lparr>location = \<lparr>search = ''?filter=oops&page=2&x=1''\<rparr>, params = None,
             filterDefaultValues = JUndefined,
             sort' = JObj [(''field'', JStr ''id''), (''order'', JStr ''ASC'')],
             perPage = JNum 10\<rparr> = Inr q)
   \<and> getQuery sample_lib
            \<lparr>location = \<lparr>search = ''?sort=title''\<rparr>, params = None,
             filterDefaultValues = JUndefined, sort' = JUndefined, perPage = JNum 10\<rparr>
       \<noteq> Inl TypeError"
proof -
  let ?l = "\<lparr>search = ''?filter=oops&page=2&x=1''\<rparr>"
  let ?a = "\<lparr>location = ?l, params = None, filterDefaultValues = JUndefined,
             sort' = JObj [(''field'', JStr ''id''), (''order'', JStr ''ASC'')],
             perPage = JNum 10\<rparr>"
  let ?b = "\<lparr>location = \<lparr>search = ''?sort=title''\<rparr>, params = None,
             filterDefaultValues = JUndefined, sort' = JUndefined, perPage = JNum 10\<rparr>"
  have p: "parse sample_lib ''?filter=oops&page=2&x=1''
             = [(''filter'', JStr ''oops''), (''page'', JStr ''2''), (''x'', JStr ''1'')]"
    by code_simp
  have f: "get_prop (parse sample_lib (search ?l)) ''filter'' = JStr ''oops''"
    by code_simp
  have j: "JSON_parse sample_lib ''oops'' = Inl SyntaxError"
    by code_simp
  note T = parseQueryFromLocation_invalid_filter [of sample_lib ?l "''oops''" SyntaxError ?a]
  from T f j
  have k: "fst ` set (parseQueryFromLocation sample_lib ?l) =
        {k \<in> fst ` set (parse sample_lib ''?filter=oops&page=2&x=1''). k \<in> set validQueryParams \<and> k \<noteq> ''filter''}"
    and v: "\<forall>k \<in> set validQueryParams. k \<noteq> ''filter'' \<longrightarrow>
            get_prop (parseQueryFromLocation sample_lib ?l) k
              = get_prop (parse sample_lib ''?filter=oops&page=2&x=1'') k"
    by simp_all
  have 1: "fst ` set (parseQueryFromLocation sample_lib ?l) = {''page''}"
    unfolding k p by (auto simp: validQueryParams_def)
  have 2: "get_prop (parseQueryFromLocation sample_lib ?l) ''page'' = JStr ''2''"
    using v by (simp add: p validQueryParams_def get_prop_def)
  have n: "not_nullish (sort' ?a)"
    by (simp add: not_nullish_def)
  from T n have 3: "\<exists>q. getQuery sample_lib ?a = Inr q"
    by blast
  have s: "selectQuery sample_lib ?b = Inr [(''sort'', JStr ''title'')]"
    by code_simp
  have 4: "getQuery sample_lib ?b \<noteq> Inl TypeError"
    using parseQueryFromLocation_invalid_filter [of sample_lib ?l "''oops''" SyntaxError ?b] s
    by (auto simp: get_prop_def)
  from f j 1 2 n 3 4 show ?thesis by simp
qed

subsection \<open>Custom params\<close>

text \<open>
  Claim C5. \<open>hasCustomParams(params)\<close> throws nothing, and its result is truthy exactly
  when \<open>params\<close> is defined, \<open>params.filter\<close> is truthy, and one of these holds: the
  filter has a key, \<open>order\<close> is not null or undefined, \<open>page\<close> is not 1, \<open>perPage\<close> is
  not null or undefined, \<open>sort\<close> is not null or undefined. \<open>hasCustomParams(undefined)\<close>
  is undefined and \<open>hasCustomParams({filter: null})\<close> is null, both falsy; params whose
  filter is null or missing are never custom, whatever the other fields are.
\<close>

theorem hasCustomParams_iff:
  "(\<exists>r. hasCustomParams ps = Inr r \<and>
      (truthy r \<longleftrightarrow>
        (\<exists>p. ps = Some p \<and> truthy (get_prop p ''filter'') \<and>
           (entries (get_prop p ''filter'') \<noteq> []
            \<or> not_nullish (get_prop p ''order'')
            \<or> get_prop p ''page'' \<noteq> JNum 1
            \<or> not_nullish (get_prop p ''perPage'')
            \<or> not_nullish (get_prop p ''sort'')))))
   \<and> hasCustomParams None = Inr JUndefined
   \<and> hasCustomParams (Some [(''filter'', JNull)]) = Inr JNull
   \<and> (\<forall>p. \<not> not_nullish (get_prop p ''filter'') \<longrightarrow>
         (\<exists>r. hasCustomParams (Some p) = Inr r \<and> \<not> truthy r))"
proof (intro conjI allI impI)
  show "\<exists>r. hasCustomParams ps = Inr r \<and>
      (truthy r \<longleftrightarrow>
        (\<exists>p. ps = Some p \<and> truthy (get_prop p ''filter'') \<and>
           (entries (get_prop p ''filter'') \<noteq> []
            \<or> not_nullish (get_prop p ''order'')
            \<or> get_prop p ''page'' \<noteq> JNum 1
            \<or> not_nullish (get_prop p ''perPage'')
            \<or> not_nullish (get_prop p ''sort''))))"
  proof (cases ps)
    case None
    then show ?thesis by (simp add: hasCustomParams_def)
  next
    case (Some p)
    show ?thesis
    proof (cases "truthy (get_prop p ''filter'')")
      case False
      with Some show ?thesis by (simp add: hasCustomParams_def)
    next
      case True
      with Some show ?thesis
        by (simp add: hasCustomParams_def Object_keys_truthy)
    qed
  qed
next
  show "hasCustomParams None = Inr JUndefined"
    by (simp add: hasCustomParams_def)
next
  show "hasCustomParams (Some [(''filter'', JNull)]) = Inr JNull"
    by (simp add: hasCustomParams_def get_prop_def)
next
  fix p assume "\<not> not_nullish (get_prop p ''filter'')"
  then have "\<not> truthy (get_prop p ''filter'')"
    by (auto simp: not_nullish_def)
  then show "\<exists>r. hasCustomParams (Some p) = Inr r \<and> \<not> truthy r"
    by (simp add: hasCustomParams_def)
qed

text \<open>
  Instances: the initial params of the store are not custom; a filter with a key or a
  page other than 1 makes the params custom; \<open>{sort: 'x', filter: null}\<close> is not custom.
\<close>

theorem hasCustomParams_iff_witness:
  "(\<exists>r. hasCustomParams (Some [(''filter'', JObj []), (''order'', JNull), (''page'', JNum 1),
                               (''perPage'', JNull), (''sort'', JNull)]) = Inr r \<and> \<not> truthy r)
   \<and> (\<exists>r. hasCustomParams (Some [(''filter'', JObj [(''a'', JNum 1)]), (''page'', JNum 1)]) = Inr r
          \<and> truthy r)
   \<and> (\<exists>r. hasCustomParams (Some [(''filter'', JObj []), (''page'', JNum 2)]) = Inr r \<and> truthy r)
   \<and> \<not> not_nullish (get_prop [(''sort'', JStr ''x''), (''filter'', JNull)] ''filter'')
   \<and> (\<exists>r. hasCustomParams (Some [(''sort'', JStr ''x''), (''filter'', JNull)]) = Inr r \<and> \<not> truthy r)"
proof -
  have 1: "\<exists>r. hasCustomParams (Some [(''filter'', JObj []), (''order'', JNull), (''page'', JNum 1),
                               (''perPage'', JNull), (''sort'', JNull)]) = Inr r \<and> \<not> truthy r"
    using hasCustomParams_iff [of "Some [(''filter'', JObj []), (''order'', JNull), (''page'', JNum 1),
                               (''perPage'', JNull), (''sort'', JNull)]"]
    by (auto simp: get_prop_def not_nullish_def)
  have 2: "\<exists>r. hasCustomParams (Some [(''filter'', JObj [(''a'', JNum 1)]), (''page'', JNum 1)]) = Inr r
          \<and> truthy r"
    using hasCustomParams_iff [of "Some [(''filter'', JObj [(''a'', JNum 1)]), (''page'', JNum 1)]"]
    by (auto simp: get_prop_def not_nullish_def)
  have 3: "\<exists>r. hasCustomParams (Some [(''filter'', JObj []), (''page'', JNum 2)]) = Inr r \<and> truthy r"
    using hasCustomParams_iff [of "Some [(''filter'', JObj []), (''page'', JNum 2)]"]
    by (auto simp: get_prop_def not_nullish_def)
  have 4: "\<not> not_nullish (get_prop [(''sort'', JStr ''x''), (''filter'', JNull)] ''filter'')"
    by (simp add: get_prop_def not_nullish_def)
  have 5: "\<exists>r. hasCustomParams (Some [(''sort'', JStr ''x''), (''filter'', JNull)]) = Inr r \<and> \<not> truthy r"
    using hasCustomParams_iff [of None] 4 by blast
  from 1 2 3 4 5 show ?thesis by blast
qed

subsection \<open>Feeding the merged query back\<close>




section \<open>Properties of the hook\<close>

subsection \<open>The debounce timer\<close>

lemma dispatched_setFilters: "dispatched (setFilters h f st) = dispatched st"
  by (simp add: setFilters_def)

lemma pending_setFilters: "pending (setFilters h f st) = Some (f, debounce h)"
  by (simp add: setFilters_def)

lemma dispatched_commitFilters:
  "dispatched (commitFilters L h f st) =
     dispatched st @ (if isEqual L f (filterValues h) then []
                      else changeEffects L h (SET_FILTER (removeEmpty f)))"
  by (simp add: commitFilters_def changeParams_def)

lemma pending_commitFilters: "pending (commitFilters L h f st) = pending st"
  by (simp add: commitFilters_def changeParams_def)

lemma elapse_idle: "pending st = None \<Longrightarrow> elapse L h t st = st"
  by (simp add: elapse_def)

lemma elapse_before:
  "pending st = Some (f, left) \<Longrightarrow> t < left \<Longrightarrow> elapse L h t st = st\<lparr>pending := Some (f, left - t)\<rparr>"
  by (simp add: elapse_def)

lemma elapse_fire:
  "pending st = Some (f, left) \<Longrightarrow> left \<le> t \<Longrightarrow>
   elapse L h t st = commitFilters L h f (st\<lparr>pending := None\<rparr>)"
  by (simp add: elapse_def)

lemma elapse_add: "elapse L h t2 (elapse L h t1 st) = elapse L h (t1 + t2) st"
proof (cases "pending st")
  case None
  then show ?thesis by (simp add: elapse_idle)
next
  case (Some a)
  obtain f left where a: "a = (f, left)" by (cases a)
  show ?thesis
  proof (cases "t1 < left")
    case True
    with Some a show ?thesis
      by (auto simp: elapse_def commitFilters_def changeParams_def)
  next
    case False
    with Some a show ?thesis
      by (simp add: elapse_def commitFilters_def changeParams_def)
  qed
qed

lemma elapse_equal_pending:
  "pending s = None \<or> (\<exists>left. pending s = Some (f, left)) \<Longrightarrow> isEqual L f (filterValues h) \<Longrightarrow>
   dispatched (elapse L h t s) = dispatched s
   \<and> (pending (elapse L h t s) = None \<or> (\<exists>left. pending (elapse L h t s) = Some (f, left)))"
  by (auto simp: elapse_def commitFilters_def)

lemma fold_elapse_equal_pending:
  "pending s = None \<or> (\<exists>left. pending s = Some (f, left)) \<Longrightarrow> isEqual L f (filterValues h) \<Longrightarrow>
   dispatched (fold (elapse L h) ts s) = dispatched s"
proof (induction ts arbitrary: s)
  case Nil
  then show ?case by simp
next
  case (Cons t ts)
  from elapse_equal_pending [OF Cons.prems, of t]
  have d: "dispatched (elapse L h t s) = dispatched s"
    and p: "pending (elapse L h t s) = None \<or> (\<exists>left. pending (elapse L h t s) = Some (f, left))"
    by simp_all
  from Cons.IH [OF p Cons.prems(2)] d show ?case by simp
qed

lemma setFiltersCalls_window:
  "\<forall>(gap, p) \<in> set calls. gap < debounce h \<Longrightarrow> pending s = Some (p0, debounce h) \<Longrightarrow>
   setFiltersCalls L h calls s = s\<lparr>pending := Some (last (p0 # map snd calls), debounce h)\<rparr>"
proof (induction calls arbitrary: s p0)
  case Nil
  then show ?case by simp
next
  case (Cons c calls)
  obtain gap p where c: "c = (gap, p)" by (cases c)
  from Cons.prems c have g: "gap < debounce h" by simp
  let ?s = "setFilters h p (elapse L h gap s)"
  have e: "?s = s\<lparr>pending := Some (p, debounce h)\<rparr>"
    using elapse_before [OF Cons.prems(2) g] by (simp add: setFilters_def)
  have "setFiltersCalls L h calls ?s = ?s\<lparr>pending := Some (last (p # map snd calls), debounce h)\<rparr>"
    using Cons.prems(1) by (intro Cons.IH) (simp_all add: pending_setFilters)
  then show ?case
    by (simp add: c e)
qed

lemma removeEmpty_no_empty: "\<forall>(k, v) \<in> set (entries (removeEmpty f)). \<not> is_empty_value v"
  by (auto simp: removeEmpty_def)



lemma removeKey_absent: "get_prop (entries (removeKey target k)) k = JUndefined"
  by (simp add: removeKey_def get_delete_prop)


subsection \<open>Filters equal to the current ones\<close>

text \<open>
  Claim C7. A call of \<open>setFilters\<close> with filters that \<open>isEqual\<close> finds equal to the
  current \<open>filterValues\<close> dispatches nothing, neither at the call nor when its timer
  runs out, however the time passes afterwards: no \<open>push\<close> and no \<open>changeListParams\<close>,
  so the location and the stored params stay as they are.
\<close>

theorem setFilters_equal_no_effect:
  assumes "isEqual L filters (filterValues h)"
  shows "dispatched (setFilters h filters st) = dispatched st
     \<and> dispatched (elapse L h t (setFilters h filters st)) = dispatched st
     \<and> dispatched (fold (elapse L h) ts (setFilters h filters st)) = dispatched st"
proof -
  have p: "pending (setFilters h filters st) = None \<or>
           (\<exists>left. pending (setFilters h filters st) = Some (filters, left))"
    by (simp add: pending_setFilters)
  from fold_elapse_equal_pending [OF p assms, of ts] elapse_equal_pending [OF p assms, of t]
  show ?thesis by (simp add: dispatched_setFilters)
qed

text \<open>
  An instance: with the current filter \<open>{a: 1, b: 2}\<close>, \<open>setFilters({b: 2, a: 1})\<close>
  has dispatched nothing after 500 time units.
\<close>

theorem setFilters_equal_no_effect_witness:
  "isEqual sample_lib (JObj [(''b'', JNum 2), (''a'', JNum 1)])
     (filterValues \<lparr>resource = ''posts'',
                    query = [(''filter'', JObj [(''a'', JNum 1), (''b'', JNum 2)]), (''page'', JNum 1)],
                    debounce = 500\<rparr>)
   \<and> dispatched (elapse sample_lib
         \<lparr>resource = ''posts'',
          query = [(''filter'', JObj [(''a'', JNum 1), (''b'', JNum 2)]), (''page'', JNum 1)],
          debounce = 500\<rparr> 500
         (setFilters
            \<lparr>resource = ''posts'',
             query = [(''filter'', JObj [(''a'', JNum 1), (''b'', JNum 2)]), (''page'', JNum 1)],
             debounce = 500\<rparr>
            (JObj [(''b'', JNum 2), (''a'', JNum 1)]) initial_state)) = []"
proof -
  let ?h = "\<lparr>resource = ''posts'',
          query = [(''filter'', JObj [(''a'', JNum 1), (''b'', JNum 2)]), (''page'', JNum 1)],
          debounce = 500\<rparr>"
  have e: "isEqual sample_lib (JObj [(''b'', JNum 2), (''a'', JNum 1)]) (filterValues ?h)"
    by code_simp
  from setFilters_equal_no_effect [OF e, of initial_state 500] e show ?thesis
    by (simp add: initial_state_def)
qed

subsection \<open>The debounced commit\<close>

text \<open>
  Claim C8, as the code has it. Let \<open>setFilters\<close> be called with a first payload and then
  again, each further call less than the delay after the one before. Nothing is
  dispatched during the calls, nor before the delay has passed since the last call.
  Once it has passed, at most one commit is made: none when the last payload is equal to
  the current \<open>filterValues\<close>, otherwise exactly one, the \<open>SET_FILTER\<close> of the last payload
  with its empty values removed; then no call is pending. The delay is 500 when the
  \<open>debounce\<close> option is not given.
\<close>

theorem setFilters_debounced:
  assumes w: "\<forall>(gap, p) \<in> set calls. gap < debounce h"
  shows "dispatched (setFiltersCalls L h calls (setFilters h p0 st)) = dispatched st
     \<and> (t < debounce h \<longrightarrow>
          dispatched (elapse L h t (setFiltersCalls L h calls (setFilters h p0 st))) = dispatched st)
     \<and> (debounce h \<le> t \<longrightarrow>
          dispatched (elapse L h t (setFiltersCalls L h calls (setFilters h p0 st))) =
            dispatched st @
              (if isEqual L (last (p0 # map snd calls)) (filterValues h) then []
               else changeEffects L h (SET_FILTER (removeEmpty (last (p0 # map snd calls)))))
          \<and> pending (elapse L h t (setFiltersCalls L h calls (setFilters h p0 st))) = None)
     \<and> (\<forall>(k, v) \<in> set (entries (removeEmpty (last (p0 # map snd calls)))). \<not> is_empty_value v)
     \<and> (\<exists>h'. useListParams L (opts\<lparr>opt_debounce := None\<rparr>) sp = Inr h' \<and> debounce h' = 500)"
proof -
  let ?s = "setFiltersCalls L h calls (setFilters h p0 st)"
  let ?C = "last (p0 # map snd calls)"
  have s: "?s = (setFilters h p0 st)\<lparr>pending := Some (?C, debounce h)\<rparr>"
    using w by (rule setFiltersCalls_window) (simp add: pending_setFilters)
  have p: "pending ?s = Some (?C, debounce h)"
    by (subst s) simp
  have d: "dispatched ?s = dispatched st"
    by (subst s) (simp add: dispatched_setFilters)
  have b: "t < debounce h \<longrightarrow> dispatched (elapse L h t ?s) = dispatched st"
    using elapse_before [OF p, of t L h] d by auto
  have f: "debounce h \<le> t \<longrightarrow>
          dispatched (elapse L h t ?s) =
            dispatched st @
              (if isEqual L ?C (filterValues h) then []
               else changeEffects L h (SET_FILTER (removeEmpty ?C)))
          \<and> pending (elapse L h t ?s) = None"
    using elapse_fire [OF p, of t L h] d
    by (auto simp: dispatched_commitFilters pending_commitFilters)
  have u: "\<exists>h'. useListParams L (opts\<lparr>opt_debounce := None\<rparr>) sp = Inr h' \<and> debounce h' = 500"
    using useListParams_total [of L "opts\<lparr>opt_debounce := None\<rparr>" sp] by auto
  from d b f u removeEmpty_no_empty [of ?C] show ?thesis
    by blast
qed

text \<open>
  Three calls do not always commit once: when the last payload is the current filter
  \<open>{a: 1}\<close>, nothing is committed.
\<close>

theorem setFilters_debounced_counterexample:
  "filterValues \<lparr>resource = ''posts'',
                 query = [(''filter'', JObj [(''a'', JNum 1)]), (''page'', JNum 1)],
                 debounce = 500\<rparr> = JObj [(''a'', JNum 1)]
   \<and> dispatched (elapse sample_lib
         \<lparr>resource = ''posts'',
          query = [(''filter'', JObj [(''a'', JNum 1)]), (''page'', JNum 1)],
          debounce = 500\<rparr> 500
         (setFiltersCalls sample_lib
            \<lparr>resource = ''posts'',
             query = [(''filter'', JObj [(''a'', JNum 1)]), (''page'', JNum 1)],
             debounce = 500\<rparr>
            [(100, JObj [(''a'', JNum 3)]), (100, JObj [(''a'', JNum 1)])]
            (setFilters
               \<lparr>resource = ''posts'',
                query = [(''filter'', JObj [(''a'', JNum 1)]), (''page'', JNum 1)],
                debounce = 500\<rparr>
               (JObj [(''a'', JNum 2)]) initial_state))) = []"
  by code_simp

text \<open>
  An instance: the calls \<open>{a: 2}\<close>, \<open>{a: 3}\<close> after 100 and \<open>{status: 'open', q: ''}\<close>
  after 499 more commit nothing within the next 499 time units, and commit
  \<open>{status: 'open'}\<close> once at 500.
\<close>

theorem setFilters_debounced_witness:
  "100 < debounce \<lparr>resource = ''posts'',
                    query = [(''filter'', JObj []), (''sort'', JStr ''id''), (''order'', JStr ''ASC''),
                             (''perPage'', JNum 10), (''page'', JNum 1)],
                    debounce = 500\<rparr>
   \<and> 499 < debounce \<lparr>resource = ''posts'',
                    query = [(''filter'', JObj []), (''sort'', JStr ''id''), (''order'', JStr ''ASC''),
                             (''perPage'', JNum 10), (''page'', JNum 1)],
                    debounce = 500\<rparr>
   \<and> dispatched (elapse sample_lib
         \<lparr>resource = ''posts'',
          query = [(''filter'', JObj []), (''sort'', JStr ''id''), (''order'', JStr ''ASC''),
                   (''perPage'', JNum 10), (''page'', JNum 1)],
          debounce = 500\<rparr> 499
         (setFiltersCalls sample_lib
            \<lparr>resource = ''posts'',
             query = [(''filter'', JObj []), (''sort'', JStr ''id''), (''order'', JStr ''ASC''),
                      (''perPage'', JNum 10), (''page'', JNum 1)],
             debounce = 500\<rparr>
            [(100, JObj [(''a'', JNum 3)]),
             (499, JObj [(''status'', JStr ''open''), (''q'', JStr [])])]
            (setFilters
               \<lparr>resource = ''posts'',
                query = [(''filter'', JObj []), (''sort'', JStr ''id''), (''order'', JStr ''ASC''),
                         (''perPage'', JNum 10), (''page'', JNum 1)],
                debounce = 500\<rparr>
               (JObj [(''a'', JNum 2)]) initial_state))) = []
   \<and> dispatched (elapse sample_lib
         \<lparr>resource = ''posts'',
          query = [(''filter'', JObj []), (''sort'', JStr ''id''), (''order'', JStr ''ASC''),
                   (''perPage'', JNum 10), (''page'', JNum 1)],
          debounce = 500\<rparr> 500
         (setFiltersCalls sample_lib
            \<lparr>resource = ''posts'',
             query = [(''filter'', JObj []), (''sort'', JStr ''id''), (''order'', JStr ''ASC''),
                      (''perPage'', JNum 10), (''page'', JNum 1)],
             debounce = 500\<rparr>
            [(100, JObj [(''a'', JNum 3)]),
             (499, JObj [(''status'', JStr ''open''), (''q'', JStr [])])]
            (setFilters
               \<lparr>resource = ''posts'',
                query = [(''filter'', JObj []), (''sort'', JStr ''id''), (''order'', JStr ''ASC''),
                         (''perPage'', JNum 10), (''page'', JNum 1)],
                debounce = 500\<rparr>
               (JObj [(''a'', JNum 2)]) initial_state)))
     = [Push ''?filter=%7B%22status%22%3A%22open%22%7D&order=ASC&page=1&perPage=10&sort=id'',
        ChangeListParams ''posts''
          [(''filter'', JObj [(''status'', JStr ''open'')]), (''sort'', JStr ''id''),
           (''order'', JStr ''ASC''), (''perPage'', JNum 10), (''page'', JNum 1)]]"
proof -
  let ?h = "\<lparr>resource = ''posts'',
          query = [(''filter'', JObj []), (''sort'', JStr ''id''), (''order'', JStr ''ASC''),
                   (''perPage'', JNum 10), (''page'', JNum 1)],
          debounce = 500\<rparr>"
  let ?calls = "[(100, JObj [(''a'', JNum 3)]),
             (499, JObj [(''status'', JStr ''open''), (''q'', JStr [])])]"
  let ?C = "JObj [(''status'', JStr ''open''), (''q'', JStr [])]"
  have w: "\<forall>(gap, p) \<in> set ?calls. gap < debounce ?h"
    by simp
  have c: "last (JObj [(''a'', JNum 2)] # map snd ?calls) = ?C"
    by simp
  have n: "\<not> isEqual sample_lib ?C (filterValues ?h)"
    by code_simp
  have v: "changeEffects sample_lib ?h (SET_FILTER (removeEmpty ?C))
     = [Push ''?filter=%7B%22status%22%3A%22open%22%7D&order=ASC&page=1&perPage=10&sort=id'',
        ChangeListParams ''posts''
          [(''filter'', JObj [(''status'', JStr ''open'')]), (''sort'', JStr ''id''),
           (''order'', JStr ''ASC''), (''perPage'', JNum 10), (''page'', JNum 1)]]"
    by code_simp
  have b: "(499::nat) < debounce ?h" and a: "debounce ?h \<le> (500::nat)"
    by simp_all
  from setFilters_debounced [OF w, of sample_lib "JObj [(''a'', JNum 2)]" initial_state 499] b
  have 1: "dispatched (elapse sample_lib ?h 499
             (setFiltersCalls sample_lib ?h ?calls
                (setFilters ?h (JObj [(''a'', JNum 2)]) initial_state))) = []"
    by (simp add: initial_state_def)
  have 2: "dispatched (elapse sample_lib ?h 500
             (setFiltersCalls sample_lib ?h ?calls
                (setFilters ?h (JObj [(''a'', JNum 2)]) initial_state)))
     = [Push ''?filter=%7B%22status%22%3A%22open%22%7D&order=ASC&page=1&perPage=10&sort=id'',
        ChangeListParams ''posts''
          [(''filter'', JObj [(''status'', JStr ''open'')]), (''sort'', JStr ''id''),
           (''order'', JStr ''ASC''), (''perPage'', JNum 10), (''page'', JNum 1)]]"
    using setFilters_debounced [OF w, of sample_lib "JObj [(''a'', JNum 2)]" initial_state 500] n v
    by (simp add: initial_state_def)
  from 1 2 show ?thesis by simp
qed

subsection \<open>Showing and hiding a filter\<close>







subsection \<open>The displayed filters\<close>

text \<open>
  Claim C10. \<open>hideFilter(name)\<close> and \<open>showFilter(name, defaultValue)\<close> replace the whole
  map of displayed filters by the single entry \<open>{name: false}\<close> and \<open>{name: true}\<close>: the
  entries of the other filters are gone.
\<close>

theorem displayedFilters_replaced:
  "displayedFilters (hideFilter h name st) = [(name, False)]
   \<and> displayedFilters (showFilter h name defaultValue st) = [(name, True)]"
  by (simp add: hideFilter_def showFilter_def setFilters_def Let_def)

text \<open>
  An instance: after \<open>showFilter('status')\<close>, \<open>showFilter('title')\<close> leaves
  \<open>{title: true}\<close> and \<open>hideFilter('title')\<close> leaves \<open>{title: false}\<close>.
\<close>

theorem displayedFilters_replaced_witness:
  "displayedFilters
     (showFilter \<lparr>resource = ''posts'', query = [(''filter'', JObj [])], debounce = 500\<rparr>
        ''title'' JUndefined
        (showFilter \<lparr>resource = ''posts'', query = [(''filter'', JObj [])], debounce = 500\<rparr>
           ''status'' JUndefined initial_state))
     = [(''title'', True)]
   \<and> displayedFilters
     (hideFilter \<lparr>resource = ''posts'', query = [(''filter'', JObj [])], debounce = 500\<rparr>
        ''title''
        (showFilter \<lparr>resource = ''posts'', query = [(''filter'', JObj [])], debounce = 500\<rparr>
           ''status'' JUndefined initial_state))
     = [(''title'', False)]"
  using displayedFilters_replaced
    [of "\<lparr>resource = ''posts'', query = [(''filter'', JObj [])], debounce = 500\<rparr>" "''title''"
        "showFilter \<lparr>resource = ''posts'', query = [(''filter'', JObj [])], debounce = 500\<rparr>
           ''status'' JUndefined initial_state" JUndefined]
  by simp

end
